theory Spec2Isabelle
  imports Complex_Main "HOL-Library.AList" "HOL-Library.Sublist"
begin

section \<open>Python values, exceptions and dictionaries\<close>

text \<open>
  The learner-view controllers (\<^verbatim>\<open>core/controllers/reader.py\<close>) shuffle dynamically
  typed values between the request and the domain services. Values that come from JSON
  (the payload, the responses) are \<open>pyval\<close>; a JSON object is an association list that is
  read with \<open>map_of\<close> and written with \<open>AList.update\<close>. Non-finite floats are outside
  the model.
\<close>

datatype pyval =
    PNone
  | PBool bool
  | PInt int
  | PFloat real
  | PStr string
  | PList "pyval list"
  | PDict "(string \<times> pyval) list"

text \<open>
  Every exception the module can see derives from Python's \<open>Exception\<close>, so
  \<^verbatim>\<open>except Exception\<close> catches each value of \<open>exn\<close>. \<open>Exception\<close> is the bare
  \<^verbatim>\<open>raise Exception\<close>; \<open>PageNotFoundException\<close> carries the argument it was raised
  with, if any; \<open>ServiceError\<close> stands for the domain layer's own exception classes.
\<close>

datatype exn =
    PageNotFoundException "exn option"
  | Exception
  | ValueError
  | TypeError
  | KeyError
  | IndexError
  | ServiceError string

text \<open>Python truthiness (\<^verbatim>\<open>if x:\<close>, \<^verbatim>\<open>bool(x)\<close>).\<close>

fun py_bool :: "pyval \<Rightarrow> bool" where
  "py_bool PNone = False"
| "py_bool (PBool b) = b"
| "py_bool (PInt i) = (i \<noteq> 0)"
| "py_bool (PFloat r) = (r \<noteq> 0)"
| "py_bool (PStr s) = (s \<noteq> [])"
| "py_bool (PList xs) = (xs \<noteq> [])"
| "py_bool (PDict kvs) = (kvs \<noteq> [])"

text \<open>Lists and dicts are unhashable: they cannot be set elements or dict keys.\<close>

fun hashable :: "pyval \<Rightarrow> bool" where
  "hashable (PList xs) = False"
| "hashable (PDict kvs) = False"
| "hashable v = True"

text \<open>\<^verbatim>\<open>d.get(k)\<close> and \<^verbatim>\<open>d.get(k, default)\<close> on a dict with string keys.\<close>

definition dict_get_default :: "(string \<times> pyval) list \<Rightarrow> string \<Rightarrow> pyval \<Rightarrow> pyval" where
  "dict_get_default d k dflt = (case map_of d k of None \<Rightarrow> dflt | Some v \<Rightarrow> v)"

definition dict_get :: "(string \<times> pyval) list \<Rightarrow> string \<Rightarrow> pyval" where
  "dict_get d k = dict_get_default d k PNone"

text \<open>\<^verbatim>\<open>d.update(other)\<close>: every item of \<open>other\<close> is stored into \<open>d\<close>.\<close>

definition dict_update :: "(string \<times> pyval) list \<Rightarrow> (string \<times> pyval) list \<Rightarrow> (string \<times> pyval) list" where
  "dict_update d other = fold (\<lambda>(k, v) acc. AList.update k v acc) other d"

text \<open>
  \<^verbatim>\<open>obj[key] = value\<close> on a JSON value: only a dict takes a string key. \<open>None\<close>,
  numbers and strings do not support item assignment, and a list wants an integer index;
  all of them raise \<open>TypeError\<close>.
\<close>

fun py_setitem :: "pyval \<Rightarrow> string \<Rightarrow> pyval \<Rightarrow> exn + pyval" where
  "py_setitem (PDict kvs) k v = Inr (PDict (AList.update k v kvs))"
| "py_setitem obj k v = Inl TypeError"

text \<open>
  \<^verbatim>\<open>set(x)\<close> for a JSON value \<open>x\<close>: a list gives its elements when all are hashable, a
  string its characters, a dict its keys; anything else is not iterable.
\<close>

fun py_set :: "pyval \<Rightarrow> exn + pyval set" where
  "py_set (PList xs) = (if list_all hashable xs then Inr (set xs) else Inl TypeError)"
| "py_set (PStr s) = Inr (set (map (\<lambda>c. PStr [c]) s))"
| "py_set (PDict kvs) = Inr (set (map (\<lambda>kv. PStr (fst kv)) kvs))"
| "py_set v = Inl TypeError"

text \<open>\<^verbatim>\<open>x + ys\<close> where \<open>ys\<close> is a list: only a list can be concatenated with a list.\<close>

fun py_add_list :: "pyval \<Rightarrow> pyval list \<Rightarrow> exn + pyval list" where
  "py_add_list (PList xs) ys = Inr (xs @ ys)"
| "py_add_list v ys = Inl TypeError"

text \<open>\<^verbatim>\<open>needle in haystack\<close> on strings.\<close>

fun py_in_str :: "string \<Rightarrow> string \<Rightarrow> bool" where
  "py_in_str needle [] = (needle = [])"
| "py_in_str needle (c # cs) = (prefix needle (c # cs) \<or> py_in_str needle cs)"

section \<open>Domain objects the handlers read\<close>

text \<open>
  The domain layer owns these classes; the records hold the attributes this module reads.
  Their methods are services (below).
\<close>

record state =
  interaction_id :: pyval

record exploration =
  exp_version :: pyval
  exp_title :: pyval
  exp_objective :: pyval
  exp_states :: "(string \<times> state) list"

record collection =
  collection_title :: pyval

record classifier_training_job =
  classifier_data :: pyval
  algorithm_id :: pyval
  data_schema_version :: pyval

record user_settings =
  preferred_audio_language_code :: pyval

text \<open>
  \<^verbatim>\<open>exploration.states[name]\<close> with a key taken from the payload: an unhashable key is
  a \<open>TypeError\<close>, a key that is no state name a \<open>KeyError\<close>.
\<close>

definition states_getitem :: "(string \<times> state) list \<Rightarrow> pyval \<Rightarrow> exn + state" where
  "states_getitem sts key =
     (if \<not> hashable key then Inl TypeError
      else case key of
        PStr name \<Rightarrow> (case map_of sts name of None \<Rightarrow> Inl KeyError | Some st \<Rightarrow> Inr st)
      | _ \<Rightarrow> Inl KeyError)"

text \<open>\<^verbatim>\<open>xs[index]\<close> for an index that is not negative.\<close>

definition list_getitem :: "'a list \<Rightarrow> nat \<Rightarrow> exn + 'a" where
  "list_getitem xs i = (if i < length xs then Inr (xs ! i) else Inl IndexError)"

section \<open>The request handler\<close>

text \<open>
  What a handler reads from \<^verbatim>\<open>self\<close>: the query parameters and the URI of the request,
  the JSON payload, and the current user. \<^verbatim>\<open>self.request.get(name)\<close> is the empty string
  for a parameter the request does not have.
\<close>

record handler =
  request_params :: "(string \<times> string) list"
  request_uri :: string
  payload :: "(string \<times> pyval) list"
  user :: pyval
  user_id :: pyval

definition request_get :: "handler \<Rightarrow> string \<Rightarrow> string" where
  "request_get self name = (case map_of (request_params self) name of None \<Rightarrow> [] | Some v \<Rightarrow> v)"

definition payload_get :: "handler \<Rightarrow> string \<Rightarrow> pyval" where
  "payload_get self k = dict_get (payload self) k"

definition payload_get_default :: "handler \<Rightarrow> string \<Rightarrow> pyval \<Rightarrow> pyval" where
  "payload_get_default self k dflt = dict_get_default (payload self) k dflt"

section \<open>The services the module calls\<close>

text \<open>
  Storage, classification, analytics, progress, ratings, recommendations and moderation
  live in the domain layer, outside this module; so do the methods of the domain objects.
  A service is a parameter of the model: a function of its arguments and of the world's
  state that returns a value or raises, and leaves a new world state. One record per
  imported Python module holds the functions this module calls, and one datatype per
  module names the calls with their arguments, for the trace of a request.
\<close>

type_synonym ('w, 'a) service = "'w \<Rightarrow> (exn + 'a) \<times> 'w"

datatype classifier_services_call =
    Get_classifier_training_jobs string pyval "(string \<times> state) list"
  | Classify state pyval

record 'w classifier_services =
  get_classifier_training_jobs ::
    "string \<Rightarrow> pyval \<Rightarrow> (string \<times> state) list \<Rightarrow> ('w, classifier_training_job option list) service"
  classify :: "state \<Rightarrow> pyval \<Rightarrow> ('w, pyval) service"

datatype collection_services_call =
    Get_collection_by_id string
  | Record_played_exploration_in_collection_context pyval pyval string
  | Get_next_exploration_ids_to_complete_by_user pyval pyval
  | Get_next_exploration_ids_in_sequence collection string

record 'w collection_services =
  get_collection_by_id :: "string \<Rightarrow> ('w, collection) service"
  record_played_exploration_in_collection_context ::
    "pyval \<Rightarrow> pyval \<Rightarrow> string \<Rightarrow> ('w, unit) service"
  get_next_exploration_ids_to_complete_by_user :: "pyval \<Rightarrow> pyval \<Rightarrow> ('w, string list) service"
  get_next_exploration_ids_in_sequence :: "collection \<Rightarrow> string \<Rightarrow> ('w, string list) service"

datatype config_domain_call =
    DEFAULT_TWITTER_SHARE_MESSAGE_PLAYER_value

record 'w config_domain =
  default_twitter_share_message_player_value :: "('w, pyval) service"

datatype dependency_registry_call =
    Get_deps_html_and_angular_modules pyval

record 'w dependency_registry =
  get_deps_html_and_angular_modules :: "pyval \<Rightarrow> ('w, pyval \<times> pyval) service"

datatype event_services_call =
    AnswerSubmissionEventHandler_record string pyval pyval pyval pyval pyval pyval pyval pyval pyval pyval
  | StateHitEventHandler_record string pyval pyval pyval pyval pyval pyval
  | StateCompleteEventHandler_record string pyval pyval pyval pyval
  | StartExplorationEventHandler_record string pyval pyval pyval pyval pyval
  | ExplorationActualStartEventHandler_record string pyval pyval pyval
  | SolutionHitEventHandler_record string pyval pyval pyval pyval
  | CompleteExplorationEventHandler_record string pyval pyval pyval pyval pyval pyval
  | MaybeLeaveExplorationEventHandler_record string pyval pyval pyval pyval pyval pyval

record 'w event_services =
  answer_submission_record ::
    "string \<Rightarrow> pyval \<Rightarrow> pyval \<Rightarrow> pyval \<Rightarrow> pyval \<Rightarrow> pyval \<Rightarrow> pyval \<Rightarrow> pyval \<Rightarrow> pyval \<Rightarrow> pyval \<Rightarrow> pyval
      \<Rightarrow> ('w, unit) service"
  state_hit_record ::
    "string \<Rightarrow> pyval \<Rightarrow> pyval \<Rightarrow> pyval \<Rightarrow> pyval \<Rightarrow> pyval \<Rightarrow> pyval \<Rightarrow> ('w, unit) service"
  state_complete_record ::
    "string \<Rightarrow> pyval \<Rightarrow> pyval \<Rightarrow> pyval \<Rightarrow> pyval \<Rightarrow> ('w, unit) service"
  start_exploration_record ::
    "string \<Rightarrow> pyval \<Rightarrow> pyval \<Rightarrow> pyval \<Rightarrow> pyval \<Rightarrow> pyval \<Rightarrow> ('w, unit) service"
  exploration_actual_start_record ::
    "string \<Rightarrow> pyval \<Rightarrow> pyval \<Rightarrow> pyval \<Rightarrow> ('w, unit) service"
  solution_hit_record ::
    "string \<Rightarrow> pyval \<Rightarrow> pyval \<Rightarrow> pyval \<Rightarrow> pyval \<Rightarrow> ('w, unit) service"
  complete_exploration_record ::
    "string \<Rightarrow> pyval \<Rightarrow> pyval \<Rightarrow> pyval \<Rightarrow> pyval \<Rightarrow> pyval \<Rightarrow> pyval \<Rightarrow> ('w, unit) service"
  maybe_leave_exploration_record ::
    "string \<Rightarrow> pyval \<Rightarrow> pyval \<Rightarrow> pyval \<Rightarrow> pyval \<Rightarrow> pyval \<Rightarrow> pyval \<Rightarrow> ('w, unit) service"

datatype exp_domain_call =
    State_from_dict pyval
  | Get_interaction_ids exploration
  | To_player_dict exploration

record 'w exp_domain =
  state_from_dict :: "pyval \<Rightarrow> ('w, state) service"
  get_interaction_ids :: "exploration \<Rightarrow> ('w, pyval) service"
  to_player_dict :: "exploration \<Rightarrow> ('w, pyval) service"

datatype exp_services_call =
    Get_exploration_by_id string pyval

record 'w exp_services =
  get_exploration_by_id :: "string \<Rightarrow> pyval \<Rightarrow> ('w, exploration) service"

datatype feedback_services_call =
    Create_thread string pyval pyval pyval pyval

record 'w feedback_services =
  create_thread :: "string \<Rightarrow> pyval \<Rightarrow> pyval \<Rightarrow> pyval \<Rightarrow> pyval \<Rightarrow> ('w, unit) service"

datatype interaction_registry_call =
    Get_deduplicated_dependency_ids pyval
  | Get_interaction_html pyval
  | Get_all_specs
  | Get_interaction_by_id pyval
  | Normalize_answer pyval pyval

record 'w interaction_registry =
  get_deduplicated_dependency_ids :: "pyval \<Rightarrow> ('w, pyval) service"
  get_interaction_html :: "pyval \<Rightarrow> ('w, pyval) service"
  get_all_specs :: "('w, pyval) service"
  get_interaction_by_id :: "pyval \<Rightarrow> ('w, pyval) service"
  normalize_answer :: "pyval \<Rightarrow> pyval \<Rightarrow> ('w, pyval) service"

datatype learner_progress_services_call =
    Mark_exploration_as_completed pyval string
  | Mark_collection_as_completed pyval pyval
  | Mark_collection_as_incomplete pyval pyval
  | Mark_exploration_as_incomplete pyval string pyval pyval
  | Remove_exp_from_incomplete_list pyval string
  | Remove_collection_from_incomplete_list pyval string

record 'w learner_progress_services =
  mark_exploration_as_completed :: "pyval \<Rightarrow> string \<Rightarrow> ('w, unit) service"
  mark_collection_as_completed :: "pyval \<Rightarrow> pyval \<Rightarrow> ('w, unit) service"
  mark_collection_as_incomplete :: "pyval \<Rightarrow> pyval \<Rightarrow> ('w, unit) service"
  mark_exploration_as_incomplete :: "pyval \<Rightarrow> string \<Rightarrow> pyval \<Rightarrow> pyval \<Rightarrow> ('w, unit) service"
  remove_exp_from_incomplete_list :: "pyval \<Rightarrow> string \<Rightarrow> ('w, unit) service"
  remove_collection_from_incomplete_list :: "pyval \<Rightarrow> string \<Rightarrow> ('w, unit) service"

datatype moderator_services_call =
    Enqueue_flag_exploration_email_task string pyval pyval

record 'w moderator_services =
  enqueue_flag_exploration_email_task :: "string \<Rightarrow> pyval \<Rightarrow> pyval \<Rightarrow> ('w, unit) service"

datatype rating_services_call =
    Get_overall_ratings_for_exploration string
  | Get_user_specific_rating_for_exploration pyval string
  | Assign_rating_to_exploration pyval string pyval

record 'w rating_services =
  get_overall_ratings_for_exploration :: "string \<Rightarrow> ('w, pyval) service"
  get_user_specific_rating_for_exploration :: "pyval \<Rightarrow> string \<Rightarrow> ('w, pyval) service"
  assign_rating_to_exploration :: "pyval \<Rightarrow> string \<Rightarrow> pyval \<Rightarrow> ('w, unit) service"

datatype recommendations_services_call =
    Get_exploration_recommendations string

record 'w recommendations_services =
  get_exploration_recommendations :: "string \<Rightarrow> ('w, string list) service"

datatype rights_manager_call =
    Get_exploration_rights string bool
  | Check_can_edit_activity pyval pyval
  | Is_exploration_private string

record 'w rights_manager =
  get_exploration_rights :: "string \<Rightarrow> bool \<Rightarrow> ('w, pyval) service"
  check_can_edit_activity :: "pyval \<Rightarrow> pyval \<Rightarrow> ('w, pyval) service"
  is_exploration_private :: "string \<Rightarrow> ('w, pyval) service"

datatype summary_services_call =
    Get_displayable_exp_summary_dicts_matching_ids "pyval list"

record 'w summary_services =
  get_displayable_exp_summary_dicts_matching_ids :: "pyval list \<Rightarrow> ('w, pyval) service"

datatype user_services_call =
    Get_user_settings pyval

record 'w user_services =
  get_user_settings :: "pyval \<Rightarrow> ('w, user_settings option) service"

datatype utils_call =
    Capitalize_string pyval
  | Generate_new_session_id

record 'w utils =
  capitalize_string :: "pyval \<Rightarrow> ('w, pyval) service"
  generate_new_session_id :: "('w, pyval) service"

text \<open>
  The standard library and \<^verbatim>\<open>jinja2\<close>. \<^verbatim>\<open>json.loads\<close>, \<^verbatim>\<open>int\<close> and
  \<^verbatim>\<open>jinja2.utils.Markup\<close> are pure; \<^verbatim>\<open>random.sample\<close> reads and advances the
  generator's state. \<open>set_iteration_order\<close> is the order in which \<^verbatim>\<open>list(s)\<close> lists a set
  whose elements, in order of first insertion, are given.
\<close>

datatype python_call =
    Random_sample "string list" nat

record 'w python =
  json_loads :: "string \<Rightarrow> exn + pyval"
  py_int :: "string \<Rightarrow> exn + int"
  Markup :: "pyval \<Rightarrow> pyval"
  set_iteration_order :: "string list \<Rightarrow> string list"
  random_sample :: "string list \<Rightarrow> nat \<Rightarrow> ('w, string list) service"

text \<open>The constants of \<^verbatim>\<open>feconf\<close> and \<^verbatim>\<open>constants\<close> the module reads.\<close>

record feconf =
  ENABLE_NEW_STATS_FRAMEWORK :: bool
  EXPLORATION_URL_EMBED_PREFIX :: string
  NAV_MODE_EXPLORE :: pyval
  PLAY_TYPE_NORMAL :: pyval

record constants =
  ACTIVITY_TYPE_EXPLORATION :: string
  ACTIVITY_TYPE_COLLECTION :: string

text \<open>
  \<^verbatim>\<open>acl_decorators\<close>: the authorization checks behind the four decorators this module
  uses. A check returns when the user may go on and raises when not.
\<close>

datatype acl_decorators_call =
    Can_play_exploration string
  | Can_access_learner_dashboard
  | Can_rate_exploration string
  | Can_flag_exploration string

record 'w acl_decorators =
  check_can_play_exploration :: "handler \<Rightarrow> string \<Rightarrow> ('w, unit) service"
  check_can_access_learner_dashboard :: "handler \<Rightarrow> ('w, unit) service"
  check_can_rate_exploration :: "handler \<Rightarrow> string \<Rightarrow> ('w, unit) service"
  check_can_flag_exploration :: "handler \<Rightarrow> string \<Rightarrow> ('w, unit) service"

text \<open>Everything the module imports, gathered.\<close>

record 'w services =
  acl_decorators :: "'w acl_decorators"
  classifier_services :: "'w classifier_services"
  collection_services :: "'w collection_services"
  config_domain :: "'w config_domain"
  dependency_registry :: "'w dependency_registry"
  event_services :: "'w event_services"
  exp_domain :: "'w exp_domain"
  exp_services :: "'w exp_services"
  feedback_services :: "'w feedback_services"
  interaction_registry :: "'w interaction_registry"
  learner_progress_services :: "'w learner_progress_services"
  moderator_services :: "'w moderator_services"
  rating_services :: "'w rating_services"
  recommendations_services :: "'w recommendations_services"
  rights_manager :: "'w rights_manager"
  summary_services :: "'w summary_services"
  user_services :: "'w user_services"
  utils :: "'w utils"
  python :: "'w python"
  feconf :: feconf
  constants :: constants

datatype service_call =
    Acl_decorators acl_decorators_call
  | Classifier_services classifier_services_call
  | Collection_services collection_services_call
  | Config_domain config_domain_call
  | Dependency_registry dependency_registry_call
  | Event_services event_services_call
  | Exp_domain exp_domain_call
  | Exp_services exp_services_call
  | Feedback_services feedback_services_call
  | Interaction_registry interaction_registry_call
  | Learner_progress_services learner_progress_services_call
  | Moderator_services moderator_services_call
  | Rating_services rating_services_call
  | Recommendations_services recommendations_services_call
  | Rights_manager rights_manager_call
  | Summary_services summary_services_call
  | User_services user_services_call
  | Utils utils_call
  | Python python_call

section \<open>Requests as computations with effects\<close>

text \<open>
  What a request does that the outside can see: the service calls it makes, each with the
  exception it raised if it raised one, the error lines it logs, and the response it
  writes (a redirect, a rendered template with the template values, or JSON).
\<close>

datatype event =
    Called service_call "exn option"
  | LogError string
  | Redirect string
  | RenderTemplate string "pyval option" "(string \<times> pyval) list"
  | RenderJson pyval

text \<open>
  The state a handler threads: the world the services act on, the handler's template
  values (\<^verbatim>\<open>self.values\<close>), and the trace so far. A computation returns a value or
  raises, and leaves a state; a raise keeps the effects that came before it.
\<close>

record 'w hstate =
  world :: 'w
  vals :: "(string \<times> pyval) list"
  trace :: "event list"

type_synonym ('w, 'a) M = "'w hstate \<Rightarrow> (exn + 'a) \<times> 'w hstate"

definition returnM :: "'a \<Rightarrow> ('w, 'a) M" where
  "returnM x s = (Inr x, s)"

definition raiseM :: "exn \<Rightarrow> ('w, 'a) M" where
  "raiseM e s = (Inl e, s)"

definition bindM :: "('w, 'a) M \<Rightarrow> ('a \<Rightarrow> ('w, 'b) M) \<Rightarrow> ('w, 'b) M" where
  "bindM m f s = (case m s of (Inl e, s') \<Rightarrow> (Inl e, s') | (Inr x, s') \<Rightarrow> f x s')"

text \<open>\<^verbatim>\<open>try: m except Exception as e: h(e)\<close>.\<close>

definition try_except :: "('w, 'a) M \<Rightarrow> (exn \<Rightarrow> ('w, 'a) M) \<Rightarrow> ('w, 'a) M" where
  "try_except m h s = (case m s of (Inl e, s') \<Rightarrow> h e s' | (Inr x, s') \<Rightarrow> (Inr x, s'))"

text \<open>The result of a pure operation that may raise.\<close>

definition liftE :: "exn + 'a \<Rightarrow> ('w, 'a) M" where
  "liftE r s = (r, s)"

text \<open>A service call: the service runs on the world, and the call joins the trace.\<close>

definition call :: "service_call \<Rightarrow> ('w, 'a) service \<Rightarrow> ('w, 'a) M" where
  "call c f s =
     (case f (world s) of
        (r, w') \<Rightarrow>
          (r, s\<lparr>world := w',
                trace := trace s @ [Called c (case r of Inl e \<Rightarrow> Some e | Inr x \<Rightarrow> None)]\<rparr>))"

definition emit :: "event \<Rightarrow> ('w, unit) M" where
  "emit ev s = (Inr (), s\<lparr>trace := trace s @ [ev]\<rparr>)"

text \<open>\<^verbatim>\<open>self.values\<close>, \<^verbatim>\<open>self.values[k] = v\<close> and \<^verbatim>\<open>self.values.update(d)\<close>.\<close>

definition self_values :: "('w, (string \<times> pyval) list) M" where
  "self_values s = (Inr (vals s), s)"

definition self_values_setitem :: "string \<Rightarrow> pyval \<Rightarrow> ('w, unit) M" where
  "self_values_setitem k v s = (Inr (), s\<lparr>vals := AList.update k v (vals s)\<rparr>)"

definition self_values_update :: "(string \<times> pyval) list \<Rightarrow> ('w, unit) M" where
  "self_values_update d s = (Inr (), s\<lparr>vals := dict_update (vals s) d\<rparr>)"

text \<open>
  The base handler's response methods and \<^verbatim>\<open>logging.error\<close>: each leaves its event
  in the trace and returns. \<^verbatim>\<open>render_template\<close> renders the template values as they
  are at that moment.
\<close>

definition render_json :: "pyval \<Rightarrow> ('w, unit) M" where
  "render_json v = emit (RenderJson v)"

definition render_template :: "string \<Rightarrow> pyval option \<Rightarrow> ('w, unit) M" where
  "render_template path iframe_restriction s = emit (RenderTemplate path iframe_restriction (vals s)) s"

definition redirect :: "string \<Rightarrow> ('w, unit) M" where
  "redirect url = emit (Redirect url)"

definition logging_error :: "string \<Rightarrow> ('w, unit) M" where
  "logging_error msg = emit (LogError msg)"

text \<open>A request starts with the template values the base handler prepared and no effects.\<close>

definition run :: "('w, 'a) M \<Rightarrow> (string \<times> pyval) list \<Rightarrow> 'w \<Rightarrow> (exn + 'a) \<times> 'w hstate" where
  "run m values0 w = m \<lparr>world = w, vals = values0, trace = []\<rparr>"

section \<open>The calls, one definition per service function\<close>

text \<open>
  \<open>m_f svc args\<close> is the Python call \<^verbatim>\<open>m.f(args)\<close>. Methods of domain objects stand
  with the module of their class (\<^verbatim>\<open>exploration.get_interaction_ids()\<close> is
  \<open>exp_domain_get_interaction_ids\<close>, \<^verbatim>\<open>collection.get_next_exploration_ids_in_sequence\<close>
  is with \<open>collection_services\<close>, an interaction's \<^verbatim>\<open>normalize_answer\<close> with
  \<open>interaction_registry\<close>), and take the object as their first argument.
\<close>

definition classifier_services_get_classifier_training_jobs ::
  "'w services \<Rightarrow> string \<Rightarrow> pyval \<Rightarrow> ((string \<times> state) list) \<Rightarrow> ('w, classifier_training_job option list) M" where
  "classifier_services_get_classifier_training_jobs svc exploration_id version sts =
     call (Classifier_services (Get_classifier_training_jobs exploration_id version sts)) (get_classifier_training_jobs (classifier_services svc) exploration_id version sts)"

definition classifier_services_classify ::
  "'w services \<Rightarrow> state \<Rightarrow> pyval \<Rightarrow> ('w, pyval) M" where
  "classifier_services_classify svc old_state answer =
     call (Classifier_services (Classify old_state answer)) (classify (classifier_services svc) old_state answer)"

definition collection_services_get_collection_by_id ::
  "'w services \<Rightarrow> string \<Rightarrow> ('w, collection) M" where
  "collection_services_get_collection_by_id svc collection_id =
     call (Collection_services (Get_collection_by_id collection_id)) (get_collection_by_id (collection_services svc) collection_id)"

definition collection_services_record_played_exploration_in_collection_context ::
  "'w services \<Rightarrow> pyval \<Rightarrow> pyval \<Rightarrow> string \<Rightarrow> ('w, unit) M" where
  "collection_services_record_played_exploration_in_collection_context svc uid collection_id exploration_id =
     call (Collection_services (Record_played_exploration_in_collection_context uid collection_id exploration_id)) (record_played_exploration_in_collection_context (collection_services svc) uid collection_id exploration_id)"

definition collection_services_get_next_exploration_ids_to_complete_by_user ::
  "'w services \<Rightarrow> pyval \<Rightarrow> pyval \<Rightarrow> ('w, string list) M" where
  "collection_services_get_next_exploration_ids_to_complete_by_user svc uid collection_id =
     call (Collection_services (Get_next_exploration_ids_to_complete_by_user uid collection_id)) (get_next_exploration_ids_to_complete_by_user (collection_services svc) uid collection_id)"

definition collection_services_get_next_exploration_ids_in_sequence ::
  "'w services \<Rightarrow> collection \<Rightarrow> string \<Rightarrow> ('w, string list) M" where
  "collection_services_get_next_exploration_ids_in_sequence svc coll exploration_id =
     call (Collection_services (Get_next_exploration_ids_in_sequence coll exploration_id)) (get_next_exploration_ids_in_sequence (collection_services svc) coll exploration_id)"

definition config_domain_DEFAULT_TWITTER_SHARE_MESSAGE_PLAYER_value ::
  "'w services \<Rightarrow> ('w, pyval) M" where
  "config_domain_DEFAULT_TWITTER_SHARE_MESSAGE_PLAYER_value svc =
     call (Config_domain DEFAULT_TWITTER_SHARE_MESSAGE_PLAYER_value) (default_twitter_share_message_player_value (config_domain svc))"

definition dependency_registry_get_deps_html_and_angular_modules ::
  "'w services \<Rightarrow> pyval \<Rightarrow> ('w, pyval \<times> pyval) M" where
  "dependency_registry_get_deps_html_and_angular_modules svc dependency_ids =
     call (Dependency_registry (Get_deps_html_and_angular_modules dependency_ids)) (get_deps_html_and_angular_modules (dependency_registry svc) dependency_ids)"

definition event_services_AnswerSubmissionEventHandler_record ::
  "'w services \<Rightarrow> string \<Rightarrow> pyval \<Rightarrow> pyval \<Rightarrow> pyval \<Rightarrow> pyval \<Rightarrow> pyval \<Rightarrow> pyval \<Rightarrow> pyval \<Rightarrow> pyval \<Rightarrow> pyval \<Rightarrow> pyval \<Rightarrow> ('w, unit) M" where
  "event_services_AnswerSubmissionEventHandler_record svc exploration_id a1 a2 a3 a4 a5 a6 a7 a8 a9 a10 =
     call (Event_services (AnswerSubmissionEventHandler_record exploration_id a1 a2 a3 a4 a5 a6 a7 a8 a9 a10)) (answer_submission_record (event_services svc) exploration_id a1 a2 a3 a4 a5 a6 a7 a8 a9 a10)"

definition event_services_StateHitEventHandler_record ::
  "'w services \<Rightarrow> string \<Rightarrow> pyval \<Rightarrow> pyval \<Rightarrow> pyval \<Rightarrow> pyval \<Rightarrow> pyval \<Rightarrow> pyval \<Rightarrow> ('w, unit) M" where
  "event_services_StateHitEventHandler_record svc exploration_id a1 a2 a3 a4 a5 a6 =
     call (Event_services (StateHitEventHandler_record exploration_id a1 a2 a3 a4 a5 a6)) (state_hit_record (event_services svc) exploration_id a1 a2 a3 a4 a5 a6)"

definition event_services_StateCompleteEventHandler_record ::
  "'w services \<Rightarrow> string \<Rightarrow> pyval \<Rightarrow> pyval \<Rightarrow> pyval \<Rightarrow> pyval \<Rightarrow> ('w, unit) M" where
  "event_services_StateCompleteEventHandler_record svc exploration_id a1 a2 a3 a4 =
     call (Event_services (StateCompleteEventHandler_record exploration_id a1 a2 a3 a4)) (state_complete_record (event_services svc) exploration_id a1 a2 a3 a4)"

definition event_services_StartExplorationEventHandler_record ::
  "'w services \<Rightarrow> string \<Rightarrow> pyval \<Rightarrow> pyval \<Rightarrow> pyval \<Rightarrow> pyval \<Rightarrow> pyval \<Rightarrow> ('w, unit) M" where
  "event_services_StartExplorationEventHandler_record svc exploration_id a1 a2 a3 a4 a5 =
     call (Event_services (StartExplorationEventHandler_record exploration_id a1 a2 a3 a4 a5)) (start_exploration_record (event_services svc) exploration_id a1 a2 a3 a4 a5)"

definition event_services_ExplorationActualStartEventHandler_record ::
  "'w services \<Rightarrow> string \<Rightarrow> pyval \<Rightarrow> pyval \<Rightarrow> pyval \<Rightarrow> ('w, unit) M" where
  "event_services_ExplorationActualStartEventHandler_record svc exploration_id a1 a2 a3 =
     call (Event_services (ExplorationActualStartEventHandler_record exploration_id a1 a2 a3)) (exploration_actual_start_record (event_services svc) exploration_id a1 a2 a3)"

definition event_services_SolutionHitEventHandler_record ::
  "'w services \<Rightarrow> string \<Rightarrow> pyval \<Rightarrow> pyval \<Rightarrow> pyval \<Rightarrow> pyval \<Rightarrow> ('w, unit) M" where
  "event_services_SolutionHitEventHandler_record svc exploration_id a1 a2 a3 a4 =
     call (Event_services (SolutionHitEventHandler_record exploration_id a1 a2 a3 a4)) (solution_hit_record (event_services svc) exploration_id a1 a2 a3 a4)"

definition event_services_CompleteExplorationEventHandler_record ::
  "'w services \<Rightarrow> string \<Rightarrow> pyval \<Rightarrow> pyval \<Rightarrow> pyval \<Rightarrow> pyval \<Rightarrow> pyval \<Rightarrow> pyval \<Rightarrow> ('w, unit) M" where
  "event_services_CompleteExplorationEventHandler_record svc exploration_id a1 a2 a3 a4 a5 a6 =
     call (Event_services (CompleteExplorationEventHandler_record exploration_id a1 a2 a3 a4 a5 a6)) (complete_exploration_record (event_services svc) exploration_id a1 a2 a3 a4 a5 a6)"

definition event_services_MaybeLeaveExplorationEventHandler_record ::
  "'w services \<Rightarrow> string \<Rightarrow> pyval \<Rightarrow> pyval \<Rightarrow> pyval \<Rightarrow> pyval \<Rightarrow> pyval \<Rightarrow> pyval \<Rightarrow> ('w, unit) M" where
  "event_services_MaybeLeaveExplorationEventHandler_record svc exploration_id a1 a2 a3 a4 a5 a6 =
     call (Event_services (MaybeLeaveExplorationEventHandler_record exploration_id a1 a2 a3 a4 a5 a6)) (maybe_leave_exploration_record (event_services svc) exploration_id a1 a2 a3 a4 a5 a6)"

definition exp_domain_State_from_dict ::
  "'w services \<Rightarrow> pyval \<Rightarrow> ('w, state) M" where
  "exp_domain_State_from_dict svc state_dict =
     call (Exp_domain (State_from_dict state_dict)) (state_from_dict (exp_domain svc) state_dict)"

definition exp_domain_get_interaction_ids ::
  "'w services \<Rightarrow> exploration \<Rightarrow> ('w, pyval) M" where
  "exp_domain_get_interaction_ids svc expl =
     call (Exp_domain (Get_interaction_ids expl)) (get_interaction_ids (exp_domain svc) expl)"

definition exp_domain_to_player_dict ::
  "'w services \<Rightarrow> exploration \<Rightarrow> ('w, pyval) M" where
  "exp_domain_to_player_dict svc expl =
     call (Exp_domain (To_player_dict expl)) (to_player_dict (exp_domain svc) expl)"

definition exp_services_get_exploration_by_id ::
  "'w services \<Rightarrow> string \<Rightarrow> pyval \<Rightarrow> ('w, exploration) M" where
  "exp_services_get_exploration_by_id svc exploration_id version =
     call (Exp_services (Get_exploration_by_id exploration_id version)) (get_exploration_by_id (exp_services svc) exploration_id version)"

definition feedback_services_create_thread ::
  "'w services \<Rightarrow> string \<Rightarrow> pyval \<Rightarrow> pyval \<Rightarrow> pyval \<Rightarrow> pyval \<Rightarrow> ('w, unit) M" where
  "feedback_services_create_thread svc exploration_id state_name original_author_id subject text =
     call (Feedback_services (Create_thread exploration_id state_name original_author_id subject text)) (create_thread (feedback_services svc) exploration_id state_name original_author_id subject text)"

definition interaction_registry_get_deduplicated_dependency_ids ::
  "'w services \<Rightarrow> pyval \<Rightarrow> ('w, pyval) M" where
  "interaction_registry_get_deduplicated_dependency_ids svc interaction_ids =
     call (Interaction_registry (Get_deduplicated_dependency_ids interaction_ids)) (get_deduplicated_dependency_ids (interaction_registry svc) interaction_ids)"

definition interaction_registry_get_interaction_html ::
  "'w services \<Rightarrow> pyval \<Rightarrow> ('w, pyval) M" where
  "interaction_registry_get_interaction_html svc interaction_ids =
     call (Interaction_registry (Get_interaction_html interaction_ids)) (get_interaction_html (interaction_registry svc) interaction_ids)"

definition interaction_registry_get_all_specs ::
  "'w services \<Rightarrow> ('w, pyval) M" where
  "interaction_registry_get_all_specs svc =
     call (Interaction_registry Get_all_specs) (get_all_specs (interaction_registry svc))"

definition interaction_registry_get_interaction_by_id ::
  "'w services \<Rightarrow> pyval \<Rightarrow> ('w, pyval) M" where
  "interaction_registry_get_interaction_by_id svc iid =
     call (Interaction_registry (Get_interaction_by_id iid)) (get_interaction_by_id (interaction_registry svc) iid)"

definition interaction_registry_normalize_answer ::
  "'w services \<Rightarrow> pyval \<Rightarrow> pyval \<Rightarrow> ('w, pyval) M" where
  "interaction_registry_normalize_answer svc interaction_instance answer =
     call (Interaction_registry (Normalize_answer interaction_instance answer)) (normalize_answer (interaction_registry svc) interaction_instance answer)"

definition learner_progress_services_mark_exploration_as_completed ::
  "'w services \<Rightarrow> pyval \<Rightarrow> string \<Rightarrow> ('w, unit) M" where
  "learner_progress_services_mark_exploration_as_completed svc uid exploration_id =
     call (Learner_progress_services (Mark_exploration_as_completed uid exploration_id)) (mark_exploration_as_completed (learner_progress_services svc) uid exploration_id)"

definition learner_progress_services_mark_collection_as_completed ::
  "'w services \<Rightarrow> pyval \<Rightarrow> pyval \<Rightarrow> ('w, unit) M" where
  "learner_progress_services_mark_collection_as_completed svc uid collection_id =
     call (Learner_progress_services (Mark_collection_as_completed uid collection_id)) (mark_collection_as_completed (learner_progress_services svc) uid collection_id)"

definition learner_progress_services_mark_collection_as_incomplete ::
  "'w services \<Rightarrow> pyval \<Rightarrow> pyval \<Rightarrow> ('w, unit) M" where
  "learner_progress_services_mark_collection_as_incomplete svc uid collection_id =
     call (Learner_progress_services (Mark_collection_as_incomplete uid collection_id)) (mark_collection_as_incomplete (learner_progress_services svc) uid collection_id)"

definition learner_progress_services_mark_exploration_as_incomplete ::
  "'w services \<Rightarrow> pyval \<Rightarrow> string \<Rightarrow> pyval \<Rightarrow> pyval \<Rightarrow> ('w, unit) M" where
  "learner_progress_services_mark_exploration_as_incomplete svc uid exploration_id state_name version =
     call (Learner_progress_services (Mark_exploration_as_incomplete uid exploration_id state_name version)) (mark_exploration_as_incomplete (learner_progress_services svc) uid exploration_id state_name version)"

definition learner_progress_services_remove_exp_from_incomplete_list ::
  "'w services \<Rightarrow> pyval \<Rightarrow> string \<Rightarrow> ('w, unit) M" where
  "learner_progress_services_remove_exp_from_incomplete_list svc uid activity_id =
     call (Learner_progress_services (Remove_exp_from_incomplete_list uid activity_id)) (remove_exp_from_incomplete_list (learner_progress_services svc) uid activity_id)"

definition learner_progress_services_remove_collection_from_incomplete_list ::
  "'w services \<Rightarrow> pyval \<Rightarrow> string \<Rightarrow> ('w, unit) M" where
  "learner_progress_services_remove_collection_from_incomplete_list svc uid activity_id =
     call (Learner_progress_services (Remove_collection_from_incomplete_list uid activity_id)) (remove_collection_from_incomplete_list (learner_progress_services svc) uid activity_id)"

definition moderator_services_enqueue_flag_exploration_email_task ::
  "'w services \<Rightarrow> string \<Rightarrow> pyval \<Rightarrow> pyval \<Rightarrow> ('w, unit) M" where
  "moderator_services_enqueue_flag_exploration_email_task svc exploration_id report_text uid =
     call (Moderator_services (Enqueue_flag_exploration_email_task exploration_id report_text uid)) (enqueue_flag_exploration_email_task (moderator_services svc) exploration_id report_text uid)"

definition rating_services_get_overall_ratings_for_exploration ::
  "'w services \<Rightarrow> string \<Rightarrow> ('w, pyval) M" where
  "rating_services_get_overall_ratings_for_exploration svc exploration_id =
     call (Rating_services (Get_overall_ratings_for_exploration exploration_id)) (get_overall_ratings_for_exploration (rating_services svc) exploration_id)"

definition rating_services_get_user_specific_rating_for_exploration ::
  "'w services \<Rightarrow> pyval \<Rightarrow> string \<Rightarrow> ('w, pyval) M" where
  "rating_services_get_user_specific_rating_for_exploration svc uid exploration_id =
     call (Rating_services (Get_user_specific_rating_for_exploration uid exploration_id)) (get_user_specific_rating_for_exploration (rating_services svc) uid exploration_id)"

definition rating_services_assign_rating_to_exploration ::
  "'w services \<Rightarrow> pyval \<Rightarrow> string \<Rightarrow> pyval \<Rightarrow> ('w, unit) M" where
  "rating_services_assign_rating_to_exploration svc uid exploration_id user_rating =
     call (Rating_services (Assign_rating_to_exploration uid exploration_id user_rating)) (assign_rating_to_exploration (rating_services svc) uid exploration_id user_rating)"

definition recommendations_services_get_exploration_recommendations ::
  "'w services \<Rightarrow> string \<Rightarrow> ('w, string list) M" where
  "recommendations_services_get_exploration_recommendations svc exploration_id =
     call (Recommendations_services (Get_exploration_recommendations exploration_id)) (get_exploration_recommendations (recommendations_services svc) exploration_id)"

definition rights_manager_get_exploration_rights ::
  "'w services \<Rightarrow> string \<Rightarrow> bool \<Rightarrow> ('w, pyval) M" where
  "rights_manager_get_exploration_rights svc exploration_id strict =
     call (Rights_manager (Get_exploration_rights exploration_id strict)) (get_exploration_rights (rights_manager svc) exploration_id strict)"

definition rights_manager_check_can_edit_activity ::
  "'w services \<Rightarrow> pyval \<Rightarrow> pyval \<Rightarrow> ('w, pyval) M" where
  "rights_manager_check_can_edit_activity svc usr activity_rights =
     call (Rights_manager (Check_can_edit_activity usr activity_rights)) (check_can_edit_activity (rights_manager svc) usr activity_rights)"

definition rights_manager_is_exploration_private ::
  "'w services \<Rightarrow> string \<Rightarrow> ('w, pyval) M" where
  "rights_manager_is_exploration_private svc exploration_id =
     call (Rights_manager (Is_exploration_private exploration_id)) (is_exploration_private (rights_manager svc) exploration_id)"

definition summary_services_get_displayable_exp_summary_dicts_matching_ids ::
  "'w services \<Rightarrow> (pyval list) \<Rightarrow> ('w, pyval) M" where
  "summary_services_get_displayable_exp_summary_dicts_matching_ids svc exploration_ids =
     call (Summary_services (Get_displayable_exp_summary_dicts_matching_ids exploration_ids)) (get_displayable_exp_summary_dicts_matching_ids (summary_services svc) exploration_ids)"

definition user_services_get_user_settings ::
  "'w services \<Rightarrow> pyval \<Rightarrow> ('w, user_settings option) M" where
  "user_services_get_user_settings svc uid =
     call (User_services (Get_user_settings uid)) (get_user_settings (user_services svc) uid)"

definition utils_capitalize_string ::
  "'w services \<Rightarrow> pyval \<Rightarrow> ('w, pyval) M" where
  "utils_capitalize_string svc input_string =
     call (Utils (Capitalize_string input_string)) (capitalize_string (utils svc) input_string)"

definition utils_generate_new_session_id ::
  "'w services \<Rightarrow> ('w, pyval) M" where
  "utils_generate_new_session_id svc =
     call (Utils Generate_new_session_id) (generate_new_session_id (utils svc))"

definition random_sample_call ::
  "'w services \<Rightarrow> (string list) \<Rightarrow> nat \<Rightarrow> ('w, string list) M" where
  "random_sample_call svc population k =
     call (Python (Random_sample population k)) (random_sample (python svc) population k)"

lemmas service_defs =
  classifier_services_get_classifier_training_jobs_def
  classifier_services_classify_def
  collection_services_get_collection_by_id_def
  collection_services_record_played_exploration_in_collection_context_def
  collection_services_get_next_exploration_ids_to_complete_by_user_def
  collection_services_get_next_exploration_ids_in_sequence_def
  config_domain_DEFAULT_TWITTER_SHARE_MESSAGE_PLAYER_value_def
  dependency_registry_get_deps_html_and_angular_modules_def
  event_services_AnswerSubmissionEventHandler_record_def
  event_services_StateHitEventHandler_record_def
  event_services_StateCompleteEventHandler_record_def
  event_services_StartExplorationEventHandler_record_def
  event_services_ExplorationActualStartEventHandler_record_def
  event_services_SolutionHitEventHandler_record_def
  event_services_CompleteExplorationEventHandler_record_def
  event_services_MaybeLeaveExplorationEventHandler_record_def
  exp_domain_State_from_dict_def
  exp_domain_get_interaction_ids_def
  exp_domain_to_player_dict_def
  exp_services_get_exploration_by_id_def
  feedback_services_create_thread_def
  interaction_registry_get_deduplicated_dependency_ids_def
  interaction_registry_get_interaction_html_def
  interaction_registry_get_all_specs_def
  interaction_registry_get_interaction_by_id_def
  interaction_registry_normalize_answer_def
  learner_progress_services_mark_exploration_as_completed_def
  learner_progress_services_mark_collection_as_completed_def
  learner_progress_services_mark_collection_as_incomplete_def
  learner_progress_services_mark_exploration_as_incomplete_def
  learner_progress_services_remove_exp_from_incomplete_list_def
  learner_progress_services_remove_collection_from_incomplete_list_def
  moderator_services_enqueue_flag_exploration_email_task_def
  rating_services_get_overall_ratings_for_exploration_def
  rating_services_get_user_specific_rating_for_exploration_def
  rating_services_assign_rating_to_exploration_def
  recommendations_services_get_exploration_recommendations_def
  rights_manager_get_exploration_rights_def
  rights_manager_check_can_edit_activity_def
  rights_manager_is_exploration_private_def
  summary_services_get_displayable_exp_summary_dicts_matching_ids_def
  user_services_get_user_settings_def
  utils_capitalize_string_def
  utils_generate_new_session_id_def
  random_sample_call_def

section \<open>The handlers\<close>

text \<open>
  Each definition is the body of one method of \<^verbatim>\<open>reader.py\<close>, statement by statement;
  the ACL decorators come after them.
\<close>

text \<open>\<^verbatim>\<open>int(version_str) if version_str else None\<close>.\<close>

definition version_of :: "'w services \<Rightarrow> string \<Rightarrow> exn + pyval" where
  "version_of svc version_str =
     (if version_str \<noteq> []
      then (case py_int (python svc) version_str of Inl e \<Rightarrow> Inl e | Inr i \<Rightarrow> Inr (PInt i))
      else Inr PNone)"

text \<open>\<^verbatim>\<open>self.render_json(self.values)\<close>.\<close>

definition render_json_values :: "('w, unit) M" where
  "render_json_values = bindM self_values (\<lambda>values. render_json (PDict values))"

definition get_exploration_player_data ::
  "'w services \<Rightarrow> string \<Rightarrow> pyval \<Rightarrow> string \<Rightarrow> pyval \<Rightarrow> ('w, (string \<times> pyval) list) M" where
  "get_exploration_player_data svc exploration_id version collection_id can_edit =
     bindM (try_except (exp_services_get_exploration_by_id svc exploration_id version)
              (\<lambda>e. raiseM Exception)) (\<lambda>exploration.
     bindM (if collection_id \<noteq> []
            then try_except
                   (bindM (collection_services_get_collection_by_id svc collection_id) (\<lambda>coll.
                    returnM (collection_title coll)))
                   (\<lambda>e. raiseM Exception)
            else returnM PNone) (\<lambda>title_of_collection.
     let version = exp_version exploration in
     bindM (exp_domain_get_interaction_ids svc exploration) (\<lambda>interaction_ids.
     bindM (interaction_registry_get_deduplicated_dependency_ids svc interaction_ids) (\<lambda>dependency_ids.
     bindM (dependency_registry_get_deps_html_and_angular_modules svc dependency_ids)
       (\<lambda>(dependencies_html, additional_angular_modules).
     bindM (interaction_registry_get_interaction_html svc interaction_ids) (\<lambda>interaction_templates.
     bindM (interaction_registry_get_all_specs svc) (\<lambda>interaction_specs.
     bindM (config_domain_DEFAULT_TWITTER_SHARE_MESSAGE_PLAYER_value svc) (\<lambda>twitter_share_message.
     bindM (rights_manager_is_exploration_private svc exploration_id) (\<lambda>is_private.
     bindM (utils_capitalize_string svc (exp_objective exploration)) (\<lambda>meta_description.
     returnM
       [(''INTERACTION_SPECS'', interaction_specs),
        (''DEFAULT_TWITTER_SHARE_MESSAGE_PLAYER'', twitter_share_message),
        (''additional_angular_modules'', additional_angular_modules),
        (''can_edit'', can_edit),
        (''dependencies_html'', Markup (python svc) dependencies_html),
        (''exploration_title'', exp_title exploration),
        (''exploration_version'', version),
        (''collection_id'', PStr collection_id),
        (''collection_title'', title_of_collection),
        (''interaction_templates'', Markup (python svc) interaction_templates),
        (''is_private'', is_private),
        (''meta_name'', exp_title exploration),
        (''meta_description'', meta_description),
        (''nav_mode'', NAV_MODE_EXPLORE (feconf svc))]))))))))))"

definition ExplorationPageEmbed_get :: "'w services \<Rightarrow> handler \<Rightarrow> string \<Rightarrow> ('w, unit) M" where
  "ExplorationPageEmbed_get svc self exploration_id =
     (let version_str = request_get self ''v'' in
      bindM (liftE (version_of svc version_str)) (\<lambda>version.
      bindM (rights_manager_get_exploration_rights svc exploration_id False) (\<lambda>exploration_rights.
      let collection_id = request_get self ''collection_id'' in
      bindM (rights_manager_check_can_edit_activity svc (user self) exploration_rights) (\<lambda>can_edit.
      bindM (if py_in_str (EXPLORATION_URL_EMBED_PREFIX (feconf svc)) (request_uri self)
                \<or> request_get self ''iframed'' \<noteq> []
             then self_values_setitem ''iframed'' (PBool True)
             else returnM ()) (\<lambda>u.
      bindM (try_except
               (get_exploration_player_data svc exploration_id version collection_id can_edit)
               (\<lambda>e. raiseM (PageNotFoundException None))) (\<lambda>exploration_data_values.
      bindM (self_values_update exploration_data_values) (\<lambda>u.
      bindM (self_values_setitem ''iframed'' (PBool True)) (\<lambda>u.
      render_template ''pages/exploration_player/exploration_player.html'' (Some PNone)))))))))"

definition ExplorationPage_get :: "'w services \<Rightarrow> handler \<Rightarrow> string \<Rightarrow> ('w, unit) M" where
  "ExplorationPage_get svc self exploration_id =
     (let version_str = request_get self ''v'' in
      bindM (liftE (version_of svc version_str)) (\<lambda>version.
      bindM (rights_manager_get_exploration_rights svc exploration_id False) (\<lambda>exploration_rights.
      if request_get self ''iframed'' \<noteq> []
      then (let redirect_url = ''/embed/exploration/'' @ exploration_id;
                redirect_url = (if version_str \<noteq> [] then redirect_url @ ''?v='' @ version_str
                                else redirect_url)
            in redirect redirect_url)
      else
      (let collection_id = request_get self ''collection_id'' in
      bindM (rights_manager_check_can_edit_activity svc (user self) exploration_rights) (\<lambda>can_edit.
      bindM (try_except
               (get_exploration_player_data svc exploration_id version collection_id can_edit)
               (\<lambda>e. raiseM (PageNotFoundException None))) (\<lambda>exploration_data_values.
      bindM (self_values_update exploration_data_values) (\<lambda>u.
      bindM (self_values_setitem ''iframed'' (PBool False)) (\<lambda>u.
      render_template ''pages/exploration_player/exploration_player.html'' None))))))))"

text \<open>
  The loop of \<open>ExplorationHandler.get\<close> over \<^verbatim>\<open>enumerate(exploration.states)\<close>: the
  state names in the dict's order, with the running index into the list of jobs.
\<close>

fun state_classifier_mapping_loop ::
  "classifier_training_job option list \<Rightarrow> nat \<Rightarrow> string list \<Rightarrow> (string \<times> pyval) list
    \<Rightarrow> exn + (string \<times> pyval) list" where
  "state_classifier_mapping_loop classifier_training_jobs index [] state_classifier_mapping =
     Inr state_classifier_mapping"
| "state_classifier_mapping_loop classifier_training_jobs index (state_name # rest)
       state_classifier_mapping =
     (case list_getitem classifier_training_jobs index of
        Inl e \<Rightarrow> Inl e
      | Inr None \<Rightarrow>
          state_classifier_mapping_loop classifier_training_jobs (Suc index) rest
            state_classifier_mapping
      | Inr (Some job) \<Rightarrow>
          state_classifier_mapping_loop classifier_training_jobs (Suc index) rest
            (AList.update state_name
               (PDict [(''algorithm_id'', algorithm_id job),
                       (''classifier_data'', classifier_data job),
                       (''data_schema_version'', data_schema_version job)])
               state_classifier_mapping))"

definition ExplorationHandler_get :: "'w services \<Rightarrow> handler \<Rightarrow> string \<Rightarrow> ('w, unit) M" where
  "ExplorationHandler_get svc self exploration_id =
     bindM (liftE (version_of svc (request_get self ''v''))) (\<lambda>version.
     bindM (try_except (exp_services_get_exploration_by_id svc exploration_id version)
              (\<lambda>e. raiseM (PageNotFoundException (Some e)))) (\<lambda>exploration.
     bindM (rights_manager_get_exploration_rights svc exploration_id False) (\<lambda>exploration_rights.
     bindM (user_services_get_user_settings svc (user_id self)) (\<lambda>settings.
     let preferred_audio_language =
           (case settings of None \<Rightarrow> PNone
            | Some user_settings \<Rightarrow> preferred_audio_language_code user_settings) in
     bindM (classifier_services_get_classifier_training_jobs svc exploration_id
              (exp_version exploration) (exp_states exploration)) (\<lambda>classifier_training_jobs.
     bindM (liftE (state_classifier_mapping_loop classifier_training_jobs 0
              (map fst (exp_states exploration)) [])) (\<lambda>state_classifier_mapping.
     bindM (rights_manager_check_can_edit_activity svc (user self) exploration_rights) (\<lambda>can_edit.
     bindM (exp_domain_to_player_dict svc exploration) (\<lambda>player_dict.
     bindM (utils_generate_new_session_id svc) (\<lambda>session_id.
     bindM (self_values_update
              [(''can_edit'', can_edit),
               (''exploration'', player_dict),
               (''exploration_id'', PStr exploration_id),
               (''is_logged_in'', PBool (py_bool (user_id self))),
               (''session_id'', session_id),
               (''version'', exp_version exploration),
               (''preferred_audio_language_code'', preferred_audio_language),
               (''state_classifier_mapping'', PDict state_classifier_mapping)]) (\<lambda>u.
     render_json_values))))))))))"

definition AnswerSubmittedEventHandler_post ::
  "'w services \<Rightarrow> handler \<Rightarrow> string \<Rightarrow> ('w, unit) M" where
  "AnswerSubmittedEventHandler_post svc self exploration_id =
     (let old_state_name = payload_get self ''old_state_name'';
          answer = payload_get self ''answer'';
          params = payload_get_default self ''params'' (PDict []);
          version = payload_get self ''version'';
          session_id = payload_get self ''session_id'';
          client_time_spent_in_secs = payload_get self ''client_time_spent_in_secs'';
          answer_group_index = payload_get self ''answer_group_index'';
          rule_spec_index = payload_get self ''rule_spec_index'';
          classification_categorization = payload_get self ''classification_categorization''
      in
      bindM (exp_services_get_exploration_by_id svc exploration_id version) (\<lambda>exploration.
      bindM (liftE (states_getitem (exp_states exploration) old_state_name)) (\<lambda>old_state.
      let old_interaction_id = interaction_id old_state in
      bindM (interaction_registry_get_interaction_by_id svc old_interaction_id)
        (\<lambda>old_interaction_instance.
      bindM (interaction_registry_normalize_answer svc old_interaction_instance answer)
        (\<lambda>normalized_answer.
      bindM (liftE (states_getitem (exp_states exploration) old_state_name)) (\<lambda>old_state_again.
      bindM (event_services_AnswerSubmissionEventHandler_record svc
               exploration_id version old_state_name (interaction_id old_state_again)
               answer_group_index rule_spec_index classification_categorization
               session_id client_time_spent_in_secs params normalized_answer) (\<lambda>u.
      render_json (PDict []))))))))"

definition StateHitEventHandler_post :: "'w services \<Rightarrow> handler \<Rightarrow> string \<Rightarrow> ('w, unit) M" where
  "StateHitEventHandler_post svc self exploration_id =
     (let new_state_name = payload_get self ''new_state_name'';
          exploration_version = payload_get self ''exploration_version'';
          session_id = payload_get self ''session_id'';
          client_time_spent_in_secs = payload_get self ''client_time_spent_in_secs'';
          old_params = payload_get self ''old_params'';
          is_first_hit = payload_get self ''is_first_hit''
      in
      bindM (if new_state_name \<noteq> PNone
             then event_services_StateHitEventHandler_record svc
                    exploration_id exploration_version new_state_name
                    session_id old_params (PLAY_TYPE_NORMAL (feconf svc)) is_first_hit
             else logging_error ''Unexpected StateHit event for the END state.'') (\<lambda>u.
      render_json (PDict [])))"

definition StateCompleteEventHandler_post ::
  "'w services \<Rightarrow> handler \<Rightarrow> string \<Rightarrow> ('w, unit) M" where
  "StateCompleteEventHandler_post svc self exploration_id =
     bindM (if ENABLE_NEW_STATS_FRAMEWORK (feconf svc)
            then event_services_StateCompleteEventHandler_record svc
                   exploration_id (payload_get self ''exp_version'')
                   (payload_get self ''state_name'') (payload_get self ''session_id'')
                   (payload_get self ''time_spent_in_state_secs'')
            else returnM ()) (\<lambda>u.
     render_json (PDict []))"

definition ClassifyHandler_post :: "'w services \<Rightarrow> handler \<Rightarrow> string \<Rightarrow> ('w, unit) M" where
  "ClassifyHandler_post svc self unused_exploration_id =
     bindM (exp_domain_State_from_dict svc (payload_get self ''old_state'')) (\<lambda>old_state.
     let answer = payload_get self ''answer'';
         params = payload_get self ''params'' in
     bindM (liftE (py_setitem params ''answer'' answer)) (\<lambda>params.
     bindM (classifier_services_classify svc old_state answer) (\<lambda>result.
     render_json result)))"

definition ReaderFeedbackHandler_post :: "'w services \<Rightarrow> handler \<Rightarrow> string \<Rightarrow> ('w, unit) M" where
  "ReaderFeedbackHandler_post svc self exploration_id =
     (let state_name = payload_get self ''state_name'';
          subject = payload_get_default self ''subject'' (PStr ''Feedback from a learner'');
          feedback = payload_get self ''feedback'';
          include_author = payload_get self ''include_author''
      in
      bindM (feedback_services_create_thread svc
               exploration_id
               state_name
               (if py_bool include_author then user_id self else PNone)
               subject
               feedback) (\<lambda>u.
      render_json_values))"

definition ExplorationStartEventHandler_post ::
  "'w services \<Rightarrow> handler \<Rightarrow> string \<Rightarrow> ('w, unit) M" where
  "ExplorationStartEventHandler_post svc self exploration_id =
     bindM (event_services_StartExplorationEventHandler_record svc
              exploration_id (payload_get self ''version'')
              (payload_get self ''state_name'')
              (payload_get self ''session_id'')
              (payload_get self ''params'')
              (PLAY_TYPE_NORMAL (feconf svc))) (\<lambda>u.
     render_json (PDict []))"

definition ExplorationActualStartEventHandler_post ::
  "'w services \<Rightarrow> handler \<Rightarrow> string \<Rightarrow> ('w, unit) M" where
  "ExplorationActualStartEventHandler_post svc self exploration_id =
     bindM (if ENABLE_NEW_STATS_FRAMEWORK (feconf svc)
            then event_services_ExplorationActualStartEventHandler_record svc
                   exploration_id (payload_get self ''exploration_version'')
                   (payload_get self ''state_name'') (payload_get self ''session_id'')
            else returnM ()) (\<lambda>u.
     render_json (PDict []))"

definition SolutionHitEventHandler_post ::
  "'w services \<Rightarrow> handler \<Rightarrow> string \<Rightarrow> ('w, unit) M" where
  "SolutionHitEventHandler_post svc self exploration_id =
     bindM (if ENABLE_NEW_STATS_FRAMEWORK (feconf svc)
            then event_services_SolutionHitEventHandler_record svc
                   exploration_id (payload_get self ''exploration_version'')
                   (payload_get self ''state_name'') (payload_get self ''session_id'')
                   (payload_get self ''time_spent_in_state_secs'')
            else returnM ()) (\<lambda>u.
     render_json (PDict []))"

text \<open>In the next two handlers \<open>uid\<close> is the local variable \<^verbatim>\<open>user_id\<close>.\<close>

definition ExplorationCompleteEventHandler_post ::
  "'w services \<Rightarrow> handler \<Rightarrow> string \<Rightarrow> ('w, unit) M" where
  "ExplorationCompleteEventHandler_post svc self exploration_id =
     (let collection_id = payload_get self ''collection_id'';
          uid = user_id self
      in
      bindM (event_services_CompleteExplorationEventHandler_record svc
               exploration_id
               (payload_get self ''version'')
               (payload_get self ''state_name'')
               (payload_get self ''session_id'')
               (payload_get self ''client_time_spent_in_secs'')
               (payload_get self ''params'')
               (PLAY_TYPE_NORMAL (feconf svc))) (\<lambda>u.
      bindM (if py_bool uid
             then learner_progress_services_mark_exploration_as_completed svc uid exploration_id
             else returnM ()) (\<lambda>u.
      bindM (if py_bool uid \<and> py_bool collection_id
             then
               bindM (collection_services_record_played_exploration_in_collection_context svc
                        uid collection_id exploration_id) (\<lambda>u.
               bindM (collection_services_get_next_exploration_ids_to_complete_by_user svc
                        uid collection_id) (\<lambda>collections_left_to_complete.
               if collections_left_to_complete = []
               then learner_progress_services_mark_collection_as_completed svc uid collection_id
               else learner_progress_services_mark_collection_as_incomplete svc uid collection_id))
             else returnM ()) (\<lambda>u.
      render_json_values))))"

definition ExplorationMaybeLeaveHandler_post ::
  "'w services \<Rightarrow> handler \<Rightarrow> string \<Rightarrow> ('w, unit) M" where
  "ExplorationMaybeLeaveHandler_post svc self exploration_id =
     (let version = payload_get self ''version'';
          state_name = payload_get self ''state_name'';
          uid = user_id self;
          collection_id = payload_get self ''collection_id''
      in
      bindM (if py_bool uid
             then learner_progress_services_mark_exploration_as_incomplete svc
                    uid exploration_id state_name version
             else returnM ()) (\<lambda>u.
      bindM (if py_bool uid \<and> py_bool collection_id
             then learner_progress_services_mark_collection_as_incomplete svc uid collection_id
             else returnM ()) (\<lambda>u.
      bindM (event_services_MaybeLeaveExplorationEventHandler_record svc
               exploration_id
               version
               state_name
               (payload_get self ''session_id'')
               (payload_get self ''client_time_spent_in_secs'')
               (payload_get self ''params'')
               (PLAY_TYPE_NORMAL (feconf svc))) (\<lambda>u.
      render_json_values))))"

definition LearnerIncompleteActivityHandler_delete ::
  "'w services \<Rightarrow> handler \<Rightarrow> string \<Rightarrow> string \<Rightarrow> ('w, unit) M" where
  "LearnerIncompleteActivityHandler_delete svc self activity_type activity_id =
     bindM (if activity_type = ACTIVITY_TYPE_EXPLORATION (constants svc)
            then learner_progress_services_remove_exp_from_incomplete_list svc
                   (user_id self) activity_id
            else if activity_type = ACTIVITY_TYPE_COLLECTION (constants svc)
            then learner_progress_services_remove_collection_from_incomplete_list svc
                   (user_id self) activity_id
            else returnM ()) (\<lambda>u.
     render_json_values)"

definition RatingHandler_get :: "'w services \<Rightarrow> handler \<Rightarrow> string \<Rightarrow> ('w, unit) M" where
  "RatingHandler_get svc self exploration_id =
     bindM (rating_services_get_overall_ratings_for_exploration svc exploration_id)
       (\<lambda>overall_ratings.
     bindM (if py_bool (user_id self)
            then rating_services_get_user_specific_rating_for_exploration svc
                   (user_id self) exploration_id
            else returnM PNone) (\<lambda>user_rating.
     bindM (self_values_update
              [(''overall_ratings'', overall_ratings),
               (''user_rating'', user_rating)]) (\<lambda>u.
     render_json_values)))"

definition RatingHandler_put :: "'w services \<Rightarrow> handler \<Rightarrow> string \<Rightarrow> ('w, unit) M" where
  "RatingHandler_put svc self exploration_id =
     (let user_rating = payload_get self ''user_rating'' in
      bindM (rating_services_assign_rating_to_exploration svc
               (user_id self) exploration_id user_rating) (\<lambda>u.
      render_json (PDict [])))"

definition MAX_SYSTEM_RECOMMENDATIONS :: nat where
  "MAX_SYSTEM_RECOMMENDATIONS = 4"

text \<open>
  \<^verbatim>\<open>list(set(exp_ids) - set(author_recommended_exp_ids))\<close>: the ids no element of the
  author's value equals, each once, in the set's iteration order. The ids come from the
  domain layer and are strings; a string equals no JSON value but the same string.
\<close>

definition list_of_set_difference :: "'w services \<Rightarrow> string list \<Rightarrow> pyval \<Rightarrow> exn + string list" where
  "list_of_set_difference svc exp_ids author_recommended_exp_ids =
     (case py_set author_recommended_exp_ids of
        Inl e \<Rightarrow> Inl e
      | Inr author_set \<Rightarrow>
          Inr (set_iteration_order (python svc)
                 (remdups (filter (\<lambda>exp_id. PStr exp_id \<notin> author_set) exp_ids))))"

definition RecommendationsHandler_get :: "'w services \<Rightarrow> handler \<Rightarrow> string \<Rightarrow> ('w, unit) M" where
  "RecommendationsHandler_get svc self exploration_id =
     (let collection_id = request_get self ''collection_id'';
          include_system_recommendations = request_get self ''include_system_recommendations''
      in
      bindM (try_except
               (liftE (json_loads (python svc)
                  (request_get self ''stringified_author_recommended_ids'')))
               (\<lambda>e. raiseM (PageNotFoundException None))) (\<lambda>author_recommended_exp_ids.
      bindM (if py_bool (user_id self) \<and> collection_id \<noteq> []
             then
               bindM (collection_services_get_next_exploration_ids_to_complete_by_user svc
                        (user_id self) (PStr collection_id)) (\<lambda>next_exp_ids_in_collection.
               liftE (list_of_set_difference svc next_exp_ids_in_collection
                        author_recommended_exp_ids))
             else
               bindM (if collection_id \<noteq> []
                      then
                        bindM (collection_services_get_collection_by_id svc collection_id) (\<lambda>coll.
                        collection_services_get_next_exploration_ids_in_sequence svc
                          coll exploration_id)
                      else returnM []) (\<lambda>next_exp_ids_in_collection.
               if next_exp_ids_in_collection \<noteq> []
               then liftE (list_of_set_difference svc next_exp_ids_in_collection
                             author_recommended_exp_ids)
               else if include_system_recommendations \<noteq> []
               then
                 bindM (recommendations_services_get_exploration_recommendations svc
                          exploration_id) (\<lambda>system_chosen_exp_ids.
                 bindM (liftE (list_of_set_difference svc system_chosen_exp_ids
                          author_recommended_exp_ids)) (\<lambda>filtered_exp_ids.
                 random_sample_call svc filtered_exp_ids
                   (min MAX_SYSTEM_RECOMMENDATIONS (length filtered_exp_ids))))
               else returnM [])) (\<lambda>auto_recommended_exp_ids.
      bindM (liftE (py_add_list author_recommended_exp_ids
               (map PStr auto_recommended_exp_ids))) (\<lambda>exp_ids.
      bindM (summary_services_get_displayable_exp_summary_dicts_matching_ids svc exp_ids)
        (\<lambda>summaries.
      bindM (self_values_update [(''summaries'', summaries)]) (\<lambda>u.
      render_json_values))))))"

definition FlagExplorationHandler_post :: "'w services \<Rightarrow> handler \<Rightarrow> string \<Rightarrow> ('w, unit) M" where
  "FlagExplorationHandler_post svc self exploration_id =
     bindM (moderator_services_enqueue_flag_exploration_email_task svc
              exploration_id
              (payload_get self ''report_text'')
              (user_id self)) (\<lambda>u.
     render_json_values)"

lemmas monad_defs =
  returnM_def raiseM_def bindM_def try_except_def liftE_def call_def emit_def
  self_values_def self_values_setitem_def self_values_update_def
  render_json_def render_template_def redirect_def logging_error_def render_json_values_def

section \<open>The ACL decorators and the module's endpoints\<close>

text \<open>
  Modelled from the spec: the four decorators of \<^verbatim>\<open>acl_decorators\<close> that this module
  puts on its methods; the module \<^verbatim>\<open>core/domain/acl_decorators.py\<close> is missing from the
  sources. The spec: ``All endpoints require an authorization check (play/edit/rate/flag
  permission) performed by the excluded ACL layer before the handler body runs.'' A
  decorated method first runs its check, and runs the method it wraps only when the
  check returns.
\<close>

definition can_play_exploration ::
  "'w services \<Rightarrow> (handler \<Rightarrow> string \<Rightarrow> ('w, unit) M) \<Rightarrow> handler \<Rightarrow> string \<Rightarrow> ('w, unit) M" where
  "can_play_exploration svc method self exploration_id =
     bindM (call (Acl_decorators (Can_play_exploration exploration_id))
              (check_can_play_exploration (acl_decorators svc) self exploration_id)) (\<lambda>u.
     method self exploration_id)"

definition can_rate_exploration ::
  "'w services \<Rightarrow> (handler \<Rightarrow> string \<Rightarrow> ('w, unit) M) \<Rightarrow> handler \<Rightarrow> string \<Rightarrow> ('w, unit) M" where
  "can_rate_exploration svc method self exploration_id =
     bindM (call (Acl_decorators (Can_rate_exploration exploration_id))
              (check_can_rate_exploration (acl_decorators svc) self exploration_id)) (\<lambda>u.
     method self exploration_id)"

definition can_flag_exploration ::
  "'w services \<Rightarrow> (handler \<Rightarrow> string \<Rightarrow> ('w, unit) M) \<Rightarrow> handler \<Rightarrow> string \<Rightarrow> ('w, unit) M" where
  "can_flag_exploration svc method self exploration_id =
     bindM (call (Acl_decorators (Can_flag_exploration exploration_id))
              (check_can_flag_exploration (acl_decorators svc) self exploration_id)) (\<lambda>u.
     method self exploration_id)"

definition can_access_learner_dashboard ::
  "'w services \<Rightarrow> (handler \<Rightarrow> string \<Rightarrow> string \<Rightarrow> ('w, unit) M) \<Rightarrow> handler \<Rightarrow> string \<Rightarrow> string
    \<Rightarrow> ('w, unit) M" where
  "can_access_learner_dashboard svc method self activity_type activity_id =
     bindM (call (Acl_decorators Can_access_learner_dashboard)
              (check_can_access_learner_dashboard (acl_decorators svc) self)) (\<lambda>u.
     method self activity_type activity_id)"

text \<open>
  The eighteen methods of the module. \<open>arg1\<close> and \<open>arg2\<close> are the arguments the URL
  gives the method: the exploration id, or the activity's type and id for
  \<open>LearnerIncompleteActivityHandler.delete\<close>.
\<close>

datatype endpoint =
    ExplorationPageEmbed_GET
  | ExplorationPage_GET
  | ExplorationHandler_GET
  | AnswerSubmittedEventHandler_POST
  | StateHitEventHandler_POST
  | StateCompleteEventHandler_POST
  | ClassifyHandler_POST
  | ReaderFeedbackHandler_POST
  | ExplorationStartEventHandler_POST
  | ExplorationActualStartEventHandler_POST
  | SolutionHitEventHandler_POST
  | ExplorationCompleteEventHandler_POST
  | ExplorationMaybeLeaveHandler_POST
  | LearnerIncompleteActivityHandler_DELETE
  | RatingHandler_GET
  | RatingHandler_PUT
  | RecommendationsHandler_GET
  | FlagExplorationHandler_POST

text \<open>The method as written, without its decorator.\<close>

fun method_body :: "'w services \<Rightarrow> endpoint \<Rightarrow> handler \<Rightarrow> string \<Rightarrow> string \<Rightarrow> ('w, unit) M" where
  "method_body svc ExplorationPageEmbed_GET self arg1 arg2 = ExplorationPageEmbed_get svc self arg1"
| "method_body svc ExplorationPage_GET self arg1 arg2 = ExplorationPage_get svc self arg1"
| "method_body svc ExplorationHandler_GET self arg1 arg2 = ExplorationHandler_get svc self arg1"
| "method_body svc AnswerSubmittedEventHandler_POST self arg1 arg2 = AnswerSubmittedEventHandler_post svc self arg1"
| "method_body svc StateHitEventHandler_POST self arg1 arg2 = StateHitEventHandler_post svc self arg1"
| "method_body svc StateCompleteEventHandler_POST self arg1 arg2 = StateCompleteEventHandler_post svc self arg1"
| "method_body svc ClassifyHandler_POST self arg1 arg2 = ClassifyHandler_post svc self arg1"
| "method_body svc ReaderFeedbackHandler_POST self arg1 arg2 = ReaderFeedbackHandler_post svc self arg1"
| "method_body svc ExplorationStartEventHandler_POST self arg1 arg2 = ExplorationStartEventHandler_post svc self arg1"
| "method_body svc ExplorationActualStartEventHandler_POST self arg1 arg2 = ExplorationActualStartEventHandler_post svc self arg1"
| "method_body svc SolutionHitEventHandler_POST self arg1 arg2 = SolutionHitEventHandler_post svc self arg1"
| "method_body svc ExplorationCompleteEventHandler_POST self arg1 arg2 = ExplorationCompleteEventHandler_post svc self arg1"
| "method_body svc ExplorationMaybeLeaveHandler_POST self arg1 arg2 = ExplorationMaybeLeaveHandler_post svc self arg1"
| "method_body svc LearnerIncompleteActivityHandler_DELETE self arg1 arg2 = LearnerIncompleteActivityHandler_delete svc self arg1 arg2"
| "method_body svc RatingHandler_GET self arg1 arg2 = RatingHandler_get svc self arg1"
| "method_body svc RatingHandler_PUT self arg1 arg2 = RatingHandler_put svc self arg1"
| "method_body svc RecommendationsHandler_GET self arg1 arg2 = RecommendationsHandler_get svc self arg1"
| "method_body svc FlagExplorationHandler_POST self arg1 arg2 = FlagExplorationHandler_post svc self arg1"

text \<open>The method as the framework calls it: under the decorator the source puts on it.\<close>

fun endpoint_method :: "'w services \<Rightarrow> endpoint \<Rightarrow> handler \<Rightarrow> string \<Rightarrow> string \<Rightarrow> ('w, unit) M" where
  "endpoint_method svc ExplorationPageEmbed_GET self arg1 arg2 =
     can_play_exploration svc (ExplorationPageEmbed_get svc) self arg1"
| "endpoint_method svc ExplorationPage_GET self arg1 arg2 =
     can_play_exploration svc (ExplorationPage_get svc) self arg1"
| "endpoint_method svc ExplorationHandler_GET self arg1 arg2 =
     can_play_exploration svc (ExplorationHandler_get svc) self arg1"
| "endpoint_method svc AnswerSubmittedEventHandler_POST self arg1 arg2 =
     can_play_exploration svc (AnswerSubmittedEventHandler_post svc) self arg1"
| "endpoint_method svc StateHitEventHandler_POST self arg1 arg2 =
     can_play_exploration svc (StateHitEventHandler_post svc) self arg1"
| "endpoint_method svc StateCompleteEventHandler_POST self arg1 arg2 =
     can_play_exploration svc (StateCompleteEventHandler_post svc) self arg1"
| "endpoint_method svc ClassifyHandler_POST self arg1 arg2 =
     can_play_exploration svc (ClassifyHandler_post svc) self arg1"
| "endpoint_method svc ReaderFeedbackHandler_POST self arg1 arg2 =
     can_play_exploration svc (ReaderFeedbackHandler_post svc) self arg1"
| "endpoint_method svc ExplorationStartEventHandler_POST self arg1 arg2 =
     can_play_exploration svc (ExplorationStartEventHandler_post svc) self arg1"
| "endpoint_method svc ExplorationActualStartEventHandler_POST self arg1 arg2 =
     can_play_exploration svc (ExplorationActualStartEventHandler_post svc) self arg1"
| "endpoint_method svc SolutionHitEventHandler_POST self arg1 arg2 =
     can_play_exploration svc (SolutionHitEventHandler_post svc) self arg1"
| "endpoint_method svc ExplorationCompleteEventHandler_POST self arg1 arg2 =
     can_play_exploration svc (ExplorationCompleteEventHandler_post svc) self arg1"
| "endpoint_method svc ExplorationMaybeLeaveHandler_POST self arg1 arg2 =
     can_play_exploration svc (ExplorationMaybeLeaveHandler_post svc) self arg1"
| "endpoint_method svc LearnerIncompleteActivityHandler_DELETE self arg1 arg2 =
     can_access_learner_dashboard svc (LearnerIncompleteActivityHandler_delete svc) self arg1 arg2"
| "endpoint_method svc RatingHandler_GET self arg1 arg2 =
     can_play_exploration svc (RatingHandler_get svc) self arg1"
| "endpoint_method svc RatingHandler_PUT self arg1 arg2 =
     can_rate_exploration svc (RatingHandler_put svc) self arg1"
| "endpoint_method svc RecommendationsHandler_GET self arg1 arg2 =
     can_play_exploration svc (RecommendationsHandler_get svc) self arg1"
| "endpoint_method svc FlagExplorationHandler_POST self arg1 arg2 =
     can_flag_exploration svc (FlagExplorationHandler_post svc) self arg1"

text \<open>
  The check each operation calls for: rating an exploration needs the rate permission,
  flagging one the flag permission, the learner's incomplete list access to the learner
  dashboard, and every other operation the play permission.
\<close>

fun required_check :: "endpoint \<Rightarrow> string \<Rightarrow> acl_decorators_call" where
  "required_check RatingHandler_PUT arg1 = Can_rate_exploration arg1"
| "required_check FlagExplorationHandler_POST arg1 = Can_flag_exploration arg1"
| "required_check LearnerIncompleteActivityHandler_DELETE arg1 = Can_access_learner_dashboard"
| "required_check ep arg1 = Can_play_exploration arg1"

text \<open>
  The calls that \<open>ExplorationPage.get\<close> and \<open>ExplorationPageEmbed.get\<close> make inside
  their \<^verbatim>\<open>try\<close> block, that is, the calls of \<open>get_exploration_player_data\<close>.
\<close>

fun player_data_call :: "service_call \<Rightarrow> bool" where
  "player_data_call (Exp_services c) = True"
| "player_data_call (Collection_services c) = True"
| "player_data_call (Exp_domain c) = True"
| "player_data_call (Interaction_registry c) = True"
| "player_data_call (Dependency_registry c) = True"
| "player_data_call (Config_domain c) = True"
| "player_data_call (Rights_manager (Is_exploration_private exploration_id)) = True"
| "player_data_call (Utils c) = True"
| "player_data_call c = False"

text \<open>The service calls of a trace that raised, in order.\<close>

fun raised :: "event list \<Rightarrow> (service_call \<times> exn) list" where
  "raised [] = []"
| "raised (Called c (Some e) # evs) = (c, e) # raised evs"
| "raised (ev # evs) = raised evs"

section \<open>An example deployment\<close>

text \<open>
  Concrete services to run the handlers on: the world is a counter that the session id
  generator advances, every other service returns a fixed value.
\<close>

definition returns :: "'a \<Rightarrow> ('w, 'a) service" where
  "returns x w = (Inr x, w)"

definition raises :: "exn \<Rightarrow> ('w, 'a) service" where
  "raises e w = (Inl e, w)"

definition example_exploration :: exploration where
  "example_exploration =
     \<lparr>exp_version = PInt 3, exp_title = PStr ''Fractions'', exp_objective = PStr ''learn fractions'',
      exp_states = [(''Intro'', \<lparr>interaction_id = PStr ''TextInput''\<rparr>),
                    (''Quiz'', \<lparr>interaction_id = PStr ''NumericInput''\<rparr>),
                    (''End'', \<lparr>interaction_id = PStr ''EndExploration''\<rparr>)]\<rparr>"

definition example_job :: classifier_training_job where
  "example_job =
     \<lparr>classifier_data = PDict [(''model'', PInt 7)], algorithm_id = PStr ''LDAStringClassifier'',
      data_schema_version = PInt 1\<rparr>"

definition example_classification :: pyval where
  "example_classification =
     PDict [(''outcome'', PDict [(''dest'', PStr ''Quiz'')]),
            (''answer_group_index'', PInt 0),
            (''rule_spec_index'', PInt 1)]"

text \<open>The JSON text of the list with the one string \<open>exp2\<close>.\<close>

definition example_author_ids_json :: string where
  "example_author_ids_json = ''['' @ [CHR 0x22] @ ''exp2'' @ [CHR 0x22] @ '']''"

definition example_services :: "nat services" where
  "example_services =
     \<lparr>acl_decorators =
        \<lparr>check_can_play_exploration = (\<lambda>self eid. returns ()),
         check_can_access_learner_dashboard = (\<lambda>self. returns ()),
         check_can_rate_exploration = (\<lambda>self eid. returns ()),
         check_can_flag_exploration = (\<lambda>self eid. returns ())\<rparr>,
      classifier_services =
        \<lparr>get_classifier_training_jobs = (\<lambda>eid v sts. returns [Some example_job, None, None]),
         classify = (\<lambda>st answer. returns example_classification)\<rparr>,
      collection_services =
        \<lparr>get_collection_by_id = (\<lambda>cid. returns \<lparr>collection_title = PStr ''Maths''\<rparr>),
         record_played_exploration_in_collection_context = (\<lambda>uid cid eid. returns ()),
         get_next_exploration_ids_to_complete_by_user = (\<lambda>uid cid. returns [''exp2'', ''exp3'']),
         get_next_exploration_ids_in_sequence = (\<lambda>coll eid. returns [''exp2''])\<rparr>,
      config_domain =
        \<lparr>default_twitter_share_message_player_value = returns (PStr ''Check out this lesson'')\<rparr>,
      dependency_registry =
        \<lparr>get_deps_html_and_angular_modules = (\<lambda>ids. returns (PStr ''<script>'', PList []))\<rparr>,
      event_services =
        \<lparr>answer_submission_record = (\<lambda>eid a1 a2 a3 a4 a5 a6 a7 a8 a9 a10. returns ()),
         state_hit_record = (\<lambda>eid a1 a2 a3 a4 a5 a6. returns ()),
         state_complete_record = (\<lambda>eid a1 a2 a3 a4. returns ()),
         start_exploration_record = (\<lambda>eid a1 a2 a3 a4 a5. returns ()),
         exploration_actual_start_record = (\<lambda>eid a1 a2 a3. returns ()),
         solution_hit_record = (\<lambda>eid a1 a2 a3 a4. returns ()),
         complete_exploration_record = (\<lambda>eid a1 a2 a3 a4 a5 a6. returns ()),
         maybe_leave_exploration_record = (\<lambda>eid a1 a2 a3 a4 a5 a6. returns ())\<rparr>,
      exp_domain =
        \<lparr>state_from_dict = (\<lambda>d. returns \<lparr>interaction_id = PStr ''TextInput''\<rparr>),
         get_interaction_ids = (\<lambda>expl. returns (PList [PStr ''TextInput''])),
         to_player_dict = (\<lambda>expl. returns (PDict [(''title'', exp_title expl)]))\<rparr>,
      exp_services =
        \<lparr>get_exploration_by_id = (\<lambda>eid v. returns example_exploration)\<rparr>,
      feedback_services =
        \<lparr>create_thread = (\<lambda>eid a1 a2 a3 a4. returns ())\<rparr>,
      interaction_registry =
        \<lparr>get_deduplicated_dependency_ids = (\<lambda>ids. returns (PList [])),
         get_interaction_html = (\<lambda>ids. returns (PStr ''<input>'')),
         get_all_specs = returns (PDict []),
         get_interaction_by_id = (\<lambda>iid. returns iid),
         normalize_answer = (\<lambda>inst answer. returns answer)\<rparr>,
      learner_progress_services =
        \<lparr>mark_exploration_as_completed = (\<lambda>uid eid. returns ()),
         mark_collection_as_completed = (\<lambda>uid cid. returns ()),
         mark_collection_as_incomplete = (\<lambda>uid cid. returns ()),
         mark_exploration_as_incomplete = (\<lambda>uid eid sn v. returns ()),
         remove_exp_from_incomplete_list = (\<lambda>uid aid. returns ()),
         remove_collection_from_incomplete_list = (\<lambda>uid aid. returns ())\<rparr>,
      moderator_services =
        \<lparr>enqueue_flag_exploration_email_task = (\<lambda>eid txt uid. returns ())\<rparr>,
      rating_services =
        \<lparr>get_overall_ratings_for_exploration = (\<lambda>eid. returns (PDict [(''5'', PInt 2)])),
         get_user_specific_rating_for_exploration = (\<lambda>uid eid. returns (PInt 5)),
         assign_rating_to_exploration = (\<lambda>uid eid r. returns ())\<rparr>,
      recommendations_services =
        \<lparr>get_exploration_recommendations =
           (\<lambda>eid. returns [''exp4'', ''exp5'', ''exp2'', ''exp6'', ''exp7'', ''exp8''])\<rparr>,
      rights_manager =
        \<lparr>get_exploration_rights = (\<lambda>eid strict. returns (PStr ''rights'')),
         check_can_edit_activity = (\<lambda>usr rights. returns (PBool False)),
         is_exploration_private = (\<lambda>eid. returns (PBool False))\<rparr>,
      summary_services =
        \<lparr>get_displayable_exp_summary_dicts_matching_ids = (\<lambda>ids. returns (PList ids))\<rparr>,
      user_services =
        \<lparr>get_user_settings = (\<lambda>uid. returns None)\<rparr>,
      utils =
        \<lparr>capitalize_string = (\<lambda>v. returns v),
         generate_new_session_id = (\<lambda>w. (Inr (PInt (int w)), Suc w))\<rparr>,
      python =
        \<lparr>json_loads =
           (\<lambda>text. if text = example_author_ids_json then Inr (PList [PStr ''exp2''])
                    else if text = ''[]'' then Inr (PList [])
                    else Inl ValueError),
         py_int = (\<lambda>text. if text = ''3'' then Inr 3 else Inl ValueError),
         Markup = (\<lambda>v. v),
         set_iteration_order = (\<lambda>xs. xs),
         random_sample =
           (\<lambda>population k. if k \<le> length population then returns (take k population)
                              else raises ValueError)\<rparr>,
      feconf =
        \<lparr>ENABLE_NEW_STATS_FRAMEWORK = True,
         EXPLORATION_URL_EMBED_PREFIX = ''/embed/exploration'',
         NAV_MODE_EXPLORE = PStr ''explore'',
         PLAY_TYPE_NORMAL = PStr ''normal''\<rparr>,
      constants =
        \<lparr>ACTIVITY_TYPE_EXPLORATION = ''exploration'',
         ACTIVITY_TYPE_COLLECTION = ''collection''\<rparr>\<rparr>"

definition example_handler :: handler where
  "example_handler =
     \<lparr>request_params = [], request_uri = ''/explore/exp1'', payload = [],
      user = PStr ''user'', user_id = PStr ''uid1''\<rparr>"

text \<open>
  Three more deployments: one whose exploration storage finds nothing, one whose rights
  check times out, one that lets nobody flag.
\<close>

definition services_missing_exploration :: "nat services" where
  "services_missing_exploration =
     example_services\<lparr>exp_services :=
       \<lparr>get_exploration_by_id = (\<lambda>eid v. raises (ServiceError ''Entity not found''))\<rparr>\<rparr>"

definition services_private_check_fails :: "nat services" where
  "services_private_check_fails =
     example_services\<lparr>rights_manager :=
       (rights_manager example_services)\<lparr>is_exploration_private :=
          (\<lambda>eid. raises (ServiceError ''Deadline exceeded''))\<rparr>\<rparr>"

definition services_flag_refused :: "nat services" where
  "services_flag_refused =
     example_services\<lparr>acl_decorators :=
       (acl_decorators example_services)\<lparr>check_can_flag_exploration :=
          (\<lambda>self eid. raises (ServiceError ''You do not have credentials to flag''))\<rparr>\<rparr>"

text \<open>A deployment with the new statistics framework switched off, and an answer's payload.\<close>

definition services_stats_disabled :: "nat services" where
  "services_stats_disabled =
     example_services\<lparr>feconf := (feconf example_services)\<lparr>ENABLE_NEW_STATS_FRAMEWORK := False\<rparr>\<rparr>"

definition example_answer_payload :: "(string \<times> pyval) list" where
  "example_answer_payload =
     [(''old_state_name'', PStr ''Intro''), (''answer'', PStr ''1/2''), (''version'', PInt 3),
      (''session_id'', PStr ''s1''), (''client_time_spent_in_secs'', PInt 12),
      (''answer_group_index'', PInt 0), (''rule_spec_index'', PInt 1),
      (''classification_categorization'', PStr ''explicit'')]"

text \<open>The entry of the state-classifier mapping for a classifier training job.\<close>

definition job_dict :: "classifier_training_job \<Rightarrow> pyval" where
  "job_dict job =
     PDict [(''algorithm_id'', algorithm_id job),
            (''classifier_data'', classifier_data job),
            (''data_schema_version'', data_schema_version job)]"

text \<open>A recommendations request that names one exploration and asks for the system's picks.\<close>

definition example_recommendations_request :: handler where
  "example_recommendations_request =
     example_handler\<lparr>request_params :=
       [(''stringified_author_recommended_ids'', example_author_ids_json),
        (''include_system_recommendations'', ''true'')]\<rparr>"

section \<open>The event-tracking endpoints\<close>

text \<open>
  The eight endpoints that record an event; the condition under which each records
  (\<open>StateHitEventHandler\<close> skips the END state, three handlers stand behind
  \<^verbatim>\<open>feconf.ENABLE_NEW_STATS_FRAMEWORK\<close>); and the event that belongs to each endpoint,
  with the fields of the payload it is recorded with. An answer's event also carries the
  interaction's id and the normalized answer, which the services provide.
\<close>

definition event_endpoints :: "endpoint list" where
  "event_endpoints =
     [AnswerSubmittedEventHandler_POST, StateHitEventHandler_POST, StateCompleteEventHandler_POST,
      ExplorationStartEventHandler_POST, ExplorationActualStartEventHandler_POST,
      SolutionHitEventHandler_POST, ExplorationCompleteEventHandler_POST,
      ExplorationMaybeLeaveHandler_POST]"

fun event_gate :: "'w services \<Rightarrow> endpoint \<Rightarrow> handler \<Rightarrow> bool" where
  "event_gate svc StateHitEventHandler_POST self = (payload_get self ''new_state_name'' \<noteq> PNone)"
| "event_gate svc StateCompleteEventHandler_POST self = ENABLE_NEW_STATS_FRAMEWORK (feconf svc)"
| "event_gate svc ExplorationActualStartEventHandler_POST self = ENABLE_NEW_STATS_FRAMEWORK (feconf svc)"
| "event_gate svc SolutionHitEventHandler_POST self = ENABLE_NEW_STATS_FRAMEWORK (feconf svc)"
| "event_gate svc ep self = True"

definition event_recorded :: "'w services \<Rightarrow> endpoint \<Rightarrow> handler \<Rightarrow> string \<Rightarrow> event_services_call \<Rightarrow> bool" where
  "event_recorded svc ep self exploration_id c =
     (case ep of
        AnswerSubmittedEventHandler_POST \<Rightarrow>
          (case c of
             AnswerSubmissionEventHandler_record eid version old_state_name interaction
               answer_group_index rule_spec_index classification_categorization session_id
               client_time_spent_in_secs params normalized_answer \<Rightarrow>
                 eid = exploration_id \<and> version = payload_get self ''version''
                 \<and> old_state_name = payload_get self ''old_state_name''
                 \<and> answer_group_index = payload_get self ''answer_group_index''
                 \<and> rule_spec_index = payload_get self ''rule_spec_index''
                 \<and> classification_categorization = payload_get self ''classification_categorization''
                 \<and> session_id = payload_get self ''session_id''
                 \<and> client_time_spent_in_secs = payload_get self ''client_time_spent_in_secs''
                 \<and> params = payload_get_default self ''params'' (PDict [])
           | _ \<Rightarrow> False)
      | StateHitEventHandler_POST \<Rightarrow>
          c = StateHitEventHandler_record exploration_id (payload_get self ''exploration_version'')
                (payload_get self ''new_state_name'') (payload_get self ''session_id'')
                (payload_get self ''old_params'') (PLAY_TYPE_NORMAL (feconf svc))
                (payload_get self ''is_first_hit'')
      | StateCompleteEventHandler_POST \<Rightarrow>
          c = StateCompleteEventHandler_record exploration_id (payload_get self ''exp_version'')
                (payload_get self ''state_name'') (payload_get self ''session_id'')
                (payload_get self ''time_spent_in_state_secs'')
      | ExplorationStartEventHandler_POST \<Rightarrow>
          c = StartExplorationEventHandler_record exploration_id (payload_get self ''version'')
                (payload_get self ''state_name'') (payload_get self ''session_id'')
                (payload_get self ''params'') (PLAY_TYPE_NORMAL (feconf svc))
      | ExplorationActualStartEventHandler_POST \<Rightarrow>
          c = ExplorationActualStartEventHandler_record exploration_id
                (payload_get self ''exploration_version'') (payload_get self ''state_name'')
                (payload_get self ''session_id'')
      | SolutionHitEventHandler_POST \<Rightarrow>
          c = SolutionHitEventHandler_record exploration_id
                (payload_get self ''exploration_version'') (payload_get self ''state_name'')
                (payload_get self ''session_id'') (payload_get self ''time_spent_in_state_secs'')
      | ExplorationCompleteEventHandler_POST \<Rightarrow>
          c = CompleteExplorationEventHandler_record exploration_id (payload_get self ''version'')
                (payload_get self ''state_name'') (payload_get self ''session_id'')
                (payload_get self ''client_time_spent_in_secs'') (payload_get self ''params'')
                (PLAY_TYPE_NORMAL (feconf svc))
      | ExplorationMaybeLeaveHandler_POST \<Rightarrow>
          c = MaybeLeaveExplorationEventHandler_record exploration_id (payload_get self ''version'')
                (payload_get self ''state_name'') (payload_get self ''session_id'')
                (payload_get self ''client_time_spent_in_secs'') (payload_get self ''params'')
                (PLAY_TYPE_NORMAL (feconf svc))
      | _ \<Rightarrow> False)"




section \<open>How a computation surfaces the exceptions of its calls\<close>

text \<open>
  \<open>surfaces C conv m\<close>: whatever state \<open>m\<close> starts in, it only appends to the trace, and
  of the calls it appends at most one raised; that call is then the last event, it
  satisfies \<open>C\<close>, and \<open>m\<close> ends in the exception \<open>conv c e\<close>, where \<open>e\<close> is what the call
  \<open>c\<close> raised.
\<close>

definition surfaces ::
  "(service_call \<Rightarrow> bool) \<Rightarrow> (service_call \<Rightarrow> exn \<Rightarrow> exn) \<Rightarrow> ('w, 'a) M \<Rightarrow> bool" where
  "surfaces C conv m =
     (\<forall>s. case m s of
        (out, s') \<Rightarrow>
          \<exists>evs. trace s' = trace s @ evs
            \<and> (raised evs = []
               \<or> (\<exists>c e pre. evs = pre @ [Called c (Some e)] \<and> raised pre = [] \<and> C c
                     \<and> out = Inl (conv c e))))"

definition propagated :: "service_call \<Rightarrow> exn \<Rightarrow> exn" where
  "propagated c e = e"

definition any_call :: "service_call \<Rightarrow> bool" where
  "any_call c = True"

text \<open>
  \<open>get_exploration_player_data\<close> replaces what its two lookups raise by a bare
  \<open>Exception\<close>.
\<close>

definition player_data_surfaced :: "service_call \<Rightarrow> exn \<Rightarrow> exn" where
  "player_data_surfaced c e =
     (case c of Exp_services a \<Rightarrow> Exception | Collection_services a \<Rightarrow> Exception | _ \<Rightarrow> e)"

text \<open>
  What a method ends in when the call \<open>c\<close> raised \<open>e\<close>: the two page handlers turn every
  exception of their \<^verbatim>\<open>try\<close> block into a bare \<open>PageNotFoundException\<close>,
  \<open>ExplorationHandler.get\<close> wraps what the exploration lookup raised into one, and
  everywhere else the exception is the one the call raised.
\<close>

fun surfaced :: "endpoint \<Rightarrow> service_call \<Rightarrow> exn \<Rightarrow> exn" where
  "surfaced ExplorationPage_GET c e =
     (if player_data_call c then PageNotFoundException None else e)"
| "surfaced ExplorationPageEmbed_GET c e =
     (if player_data_call c then PageNotFoundException None else e)"
| "surfaced ExplorationHandler_GET c e =
     (case c of Exp_services a \<Rightarrow> PageNotFoundException (Some e) | _ \<Rightarrow> e)"
| "surfaced ep c e = e"

section \<open>Properties of the handlers\<close>

lemmas payload_defs = payload_get_def payload_get_default_def dict_get_def dict_get_default_def

lemmas example_defs =
  example_services_def example_handler_def example_exploration_def example_job_def
  example_classification_def example_author_ids_json_def returns_def raises_def

subsection \<open>The classify endpoint\<close>

text \<open>
  Claim C2. A POST to the classify endpoint with a well-formed payload (an old state the
  domain layer can build a state from, an answer, and a dict of parameter values) answers
  with exactly what the classifier service returned for that state and that answer, and
  makes no other call: when the classifier returns the dict with the three keys
  \<open>outcome\<close>, \<open>answer_group_index\<close> and \<open>rule_spec_index\<close>, that dict is the JSON
  response.
\<close>

theorem classify_returns_classification:
  assumes "state_from_dict (exp_domain svc) (payload_get self ''old_state'') w = (Inr old_state, w1)"
    and "payload_get self ''params'' = PDict params"
    and "classify (classifier_services svc) old_state (payload_get self ''answer'') w1
           = (Inr (PDict result), w2)"
    and "fst ` set result = {''outcome'', ''answer_group_index'', ''rule_spec_index''}"
  shows "\<exists>response.
     run (ClassifyHandler_post svc self exploration_id) values0 w =
       (Inr (), \<lparr>world = w2, vals = values0,
          trace = [Called (Exp_domain (State_from_dict (payload_get self ''old_state''))) None,
                   Called (Classifier_services
                             (Classify old_state (payload_get self ''answer''))) None,
                   RenderJson (PDict response)]\<rparr>)
     \<and> response = result
     \<and> fst ` set response = {''outcome'', ''answer_group_index'', ''rule_spec_index''}"
  using assms
  by (simp add: ClassifyHandler_post_def monad_defs run_def Let_def service_defs)

theorem classify_returns_classification_witness:
  "\<exists>response.
     run (ClassifyHandler_post example_services
            (example_handler\<lparr>payload := [(''old_state'', PDict []), (''answer'', PStr ''1/2''),
                                          (''params'', PDict [])]\<rparr>) ''exp1'') [] 0 =
       (Inr (), \<lparr>world = 0, vals = [],
          trace = [Called (Exp_domain (State_from_dict (PDict []))) None,
                   Called (Classifier_services
                             (Classify \<lparr>interaction_id = PStr ''TextInput''\<rparr> (PStr ''1/2''))) None,
                   RenderJson (PDict response)]\<rparr>)
     \<and> PDict response = example_classification"
proof -
  let ?self = "example_handler\<lparr>payload := [(''old_state'', PDict []), (''answer'', PStr ''1/2''),
                                          (''params'', PDict [])]\<rparr>"
  let ?result = "[(''outcome'', PDict [(''dest'', PStr ''Quiz'')]),
                  (''answer_group_index'', PInt 0), (''rule_spec_index'', PInt 1)]"
  have a: "state_from_dict (exp_domain example_services) (payload_get ?self ''old_state'') 0
             = (Inr \<lparr>interaction_id = PStr ''TextInput''\<rparr>, 0)"
    by (simp add: example_defs)
  have b: "payload_get ?self ''params'' = PDict []"
    by (simp add: example_defs payload_defs)
  have c: "classify (classifier_services example_services) \<lparr>interaction_id = PStr ''TextInput''\<rparr>
             (payload_get ?self ''answer'') 0 = (Inr (PDict ?result), 0)"
    by (simp add: example_defs)
  have d: "fst ` set ?result = {''outcome'', ''answer_group_index'', ''rule_spec_index''}"
    by simp
  show ?thesis
    using classify_returns_classification [OF a b c d, of "''exp1''" "[]"]
    by (simp add: example_defs payload_defs)
qed

text \<open>
  Claim C10. A POST to the classify endpoint whose payload has no \<open>params\<close> field fails,
  and the classifier service is never called: \<^verbatim>\<open>self.payload.get('params')\<close> is
  \<open>None\<close>, so once the old state has been built the assignment
  \<^verbatim>\<open>params['answer'] = answer\<close> raises \<open>TypeError\<close>.
\<close>

theorem classify_without_params_fails:
  assumes "map_of (payload self) ''params'' = None"
    and "run (ClassifyHandler_post svc self exploration_id) values0 w = (out, s')"
  shows "(\<exists>e. out = Inl e)
       \<and> (\<forall>st a r. Called (Classifier_services (Classify st a)) r \<notin> set (trace s'))
       \<and> (\<forall>st w'. state_from_dict (exp_domain svc) (payload_get self ''old_state'') w = (Inr st, w')
             \<longrightarrow> out = Inl TypeError)"
  using assms
  by (auto simp add: ClassifyHandler_post_def monad_defs run_def Let_def service_defs payload_defs
       split: prod.splits sum.splits)

theorem classify_without_params_fails_witness:
  "map_of (payload example_handler) ''params'' = None
   \<and> fst (run (ClassifyHandler_post example_services example_handler ''exp1'') [] 0) = Inl TypeError
   \<and> trace (snd (run (ClassifyHandler_post example_services example_handler ''exp1'') [] 0))
       = [Called (Exp_domain (State_from_dict PNone)) None]"
proof -
  have a: "map_of (payload example_handler) ''params'' = None"
    by (simp add: example_defs)
  have b: "run (ClassifyHandler_post example_services example_handler ''exp1'') [] 0
             = (fst (run (ClassifyHandler_post example_services example_handler ''exp1'') [] 0),
                snd (run (ClassifyHandler_post example_services example_handler ''exp1'') [] 0))"
    by simp
  have c: "state_from_dict (exp_domain example_services) (payload_get example_handler ''old_state'') 0
             = (Inr \<lparr>interaction_id = PStr ''TextInput''\<rparr>, 0)"
    by (simp add: example_defs)
  have "fst (run (ClassifyHandler_post example_services example_handler ''exp1'') [] 0) = Inl TypeError"
    using classify_without_params_fails [OF a b] c by blast
  moreover have "trace (snd (run (ClassifyHandler_post example_services example_handler ''exp1'') [] 0))
       = [Called (Exp_domain (State_from_dict PNone)) None]"
    by (simp add: ClassifyHandler_post_def monad_defs run_def Let_def service_defs payload_defs
          example_defs)
  ultimately show ?thesis using a by simp
qed

subsection \<open>The state-hit endpoint\<close>

text \<open>
  Claim C9. A POST to the state-hit endpoint whose payload gives no \<open>new_state_name\<close>
  (the END state) records no state-hit event: no service is called at all, one error line
  is logged, and the handler still answers with the empty JSON object.
\<close>

theorem state_hit_end_state_not_recorded:
  assumes "payload_get self ''new_state_name'' = PNone"
  shows "run (StateHitEventHandler_post svc self exploration_id) values0 w =
     (Inr (), \<lparr>world = w, vals = values0,
        trace = [LogError ''Unexpected StateHit event for the END state.'',
                 RenderJson (PDict [])]\<rparr>)"
  using assms
  by (simp add: StateHitEventHandler_post_def monad_defs run_def)

theorem state_hit_end_state_not_recorded_witness:
  "payload_get (example_handler\<lparr>payload := [(''session_id'', PStr ''s1'')]\<rparr>) ''new_state_name'' = PNone
   \<and> run (StateHitEventHandler_post example_services
            (example_handler\<lparr>payload := [(''session_id'', PStr ''s1'')]\<rparr>) ''exp1'') [] 0 =
     (Inr (), \<lparr>world = 0, vals = [],
        trace = [LogError ''Unexpected StateHit event for the END state.'',
                 RenderJson (PDict [])]\<rparr>)"
proof -
  have a: "payload_get (example_handler\<lparr>payload := [(''session_id'', PStr ''s1'')]\<rparr>)
             ''new_state_name'' = PNone"
    by (simp add: example_defs payload_defs)
  show ?thesis
    using a state_hit_end_state_not_recorded [OF a, of example_services "''exp1''" "[]" 0]
    by simp
qed

subsection \<open>The recommendations endpoint\<close>

text \<open>
  Claim C5. A GET to the recommendations endpoint whose
  \<open>stringified_author_recommended_ids\<close> parameter is not valid JSON (\<^verbatim>\<open>json.loads\<close>
  raises) ends in a page-not-found error, and no service has been called by then: the
  trace of the request is empty and the world is as it was.
\<close>

theorem recommendations_malformed_ids_not_found:
  assumes "json_loads (python svc) (request_get self ''stringified_author_recommended_ids'') = Inl e"
  shows "run (RecommendationsHandler_get svc self exploration_id) values0 w =
     (Inl (PageNotFoundException None), \<lparr>world = w, vals = values0, trace = []\<rparr>)"
  using assms
  by (simp add: RecommendationsHandler_get_def monad_defs run_def Let_def)

theorem recommendations_malformed_ids_not_found_witness:
  "json_loads (python example_services)
     (request_get (example_handler\<lparr>request_params :=
        [(''stringified_author_recommended_ids'', ''[exp2'')]\<rparr>)
        ''stringified_author_recommended_ids'') = Inl ValueError
   \<and> run (RecommendationsHandler_get example_services
            (example_handler\<lparr>request_params :=
               [(''stringified_author_recommended_ids'', ''[exp2'')]\<rparr>) ''exp1'') [] 0 =
     (Inl (PageNotFoundException None), \<lparr>world = 0, vals = [], trace = []\<rparr>)"
proof -
  let ?self = "example_handler\<lparr>request_params :=
                 [(''stringified_author_recommended_ids'', ''[exp2'')]\<rparr>"
  have a: "json_loads (python example_services)
             (request_get ?self ''stringified_author_recommended_ids'') = Inl ValueError"
    by (simp add: example_defs request_get_def)
  show ?thesis
    using a recommendations_malformed_ids_not_found [OF a, of "''exp1''" "[]" 0]
    by simp
qed

subsection \<open>Exceptions of the services\<close>

lemma raised_append: "raised (xs @ ys) = raised xs @ raised ys"
  by (induction xs rule: raised.induct) auto

lemma surfaces_returnM: "surfaces C conv (returnM x)"
  by (simp add: surfaces_def returnM_def)
lemma surfaces_raiseM: "surfaces C conv (raiseM e)"
  by (simp add: surfaces_def raiseM_def)
lemma surfaces_liftE: "surfaces C conv (liftE r)"
  by (simp add: surfaces_def liftE_def)
lemma surfaces_self_values: "surfaces C conv self_values"
  by (simp add: surfaces_def self_values_def)
lemma surfaces_self_values_setitem: "surfaces C conv (self_values_setitem k v)"
  by (simp add: surfaces_def self_values_setitem_def)
lemma surfaces_self_values_update: "surfaces C conv (self_values_update d)"
  by (simp add: surfaces_def self_values_update_def)
lemma surfaces_render_json: "surfaces C conv (render_json v)"
  by (simp add: render_json_def surfaces_def emit_def)
lemma surfaces_redirect: "surfaces C conv (redirect v)"
  by (simp add: redirect_def surfaces_def emit_def)
lemma surfaces_logging_error: "surfaces C conv (logging_error v)"
  by (simp add: logging_error_def surfaces_def emit_def)
lemma surfaces_render_template: "surfaces C conv (render_template p r)"
  by (simp add: surfaces_def render_template_def emit_def)

lemma surfaces_call:
  assumes "C c" and "\<And>e. conv c e = e"
  shows "surfaces C conv (call c f)"
  unfolding surfaces_def call_def
proof (intro allI)
  fix s
  obtain r w' where f: "f (world s) = (r, w')" by (cases "f (world s)")
  show "case (case f (world s) of
            (r, w') \<Rightarrow> (r, s\<lparr>world := w', trace := trace s @ [Called c (case r of Inl e \<Rightarrow> Some e | Inr x \<Rightarrow> None)]\<rparr>)) of
        (out, s') \<Rightarrow> \<exists>evs. trace s' = trace s @ evs \<and>
           (raised evs = [] \<or> (\<exists>c e pre. evs = pre @ [Called c (Some e)] \<and> raised pre = [] \<and> C c \<and> out = Inl (conv c e)))"
    using assms f by (cases r) auto
qed

lemma surfaces_bindM:
  assumes m: "surfaces C conv m" and f: "\<And>x. surfaces C conv (f x)"
  shows "surfaces C conv (bindM m f)"
  unfolding surfaces_def
proof (intro allI)
  fix s
  obtain out s1 where ms: "m s = (out, s1)" by (cases "m s")
  from m ms obtain evs where evs: "trace s1 = trace s @ evs"
    and r1: "raised evs = [] \<or> (\<exists>c e pre. evs = pre @ [Called c (Some e)] \<and> raised pre = [] \<and> C c \<and> out = Inl (conv c e))"
    unfolding surfaces_def by (auto split: prod.splits dest!: spec[of _ s])
  show "case bindM m f s of (out, s') \<Rightarrow> \<exists>evs. trace s' = trace s @ evs \<and>
           (raised evs = [] \<or> (\<exists>c e pre. evs = pre @ [Called c (Some e)] \<and> raised pre = [] \<and> C c \<and> out = Inl (conv c e)))"
  proof (cases out)
    case (Inl e)
    then show ?thesis using ms evs r1 by (auto simp: bindM_def)
  next
    case (Inr x)
    obtain out2 s2 where fs: "f x s1 = (out2, s2)" by (cases "f x s1")
    from f[of x] fs obtain evs2 where evs2: "trace s2 = trace s1 @ evs2"
      and r2: "raised evs2 = [] \<or> (\<exists>c e pre. evs2 = pre @ [Called c (Some e)] \<and> raised pre = [] \<and> C c \<and> out2 = Inl (conv c e))"
      unfolding surfaces_def by (auto split: prod.splits dest!: spec[of _ s1])
    from Inr r1 have r1': "raised evs = []" by auto
    have tr: "trace s2 = trace s @ (evs @ evs2)" using evs evs2 by simp
    from r2 show ?thesis
    proof
      assume "raised evs2 = []"
      then show ?thesis using Inr ms fs tr r1' by (auto simp: bindM_def raised_append)
    next
      assume "\<exists>c e pre. evs2 = pre @ [Called c (Some e)] \<and> raised pre = [] \<and> C c \<and> out2 = Inl (conv c e)"
      then obtain c e pre where p: "evs2 = pre @ [Called c (Some e)]" "raised pre = []" "C c" "out2 = Inl (conv c e)" by blast
      have "evs @ evs2 = (evs @ pre) @ [Called c (Some e)]" using p by simp
      moreover have "raised (evs @ pre) = []" using r1' p by (simp add: raised_append)
      ultimately show ?thesis using Inr ms fs tr p by (auto simp: bindM_def simp del: append_assoc)
    qed
  qed
qed

lemma surfaces_try_except:
  assumes m: "surfaces C0 conv0 m" and h: "\<And>c e. C0 c \<Longrightarrow> C c \<and> conv c e = h (conv0 c e)"
  shows "surfaces C conv (try_except m (\<lambda>e. raiseM (h e)))"
  unfolding surfaces_def
proof (intro allI)
  fix s
  obtain out s1 where ms: "m s = (out, s1)" by (cases "m s")
  from m ms obtain evs where evs: "trace s1 = trace s @ evs"
    and r1: "raised evs = [] \<or> (\<exists>c e pre. evs = pre @ [Called c (Some e)] \<and> raised pre = [] \<and> C0 c \<and> out = Inl (conv0 c e))"
    unfolding surfaces_def by (auto split: prod.splits dest!: spec[of _ s])
  show "case try_except m (\<lambda>e. raiseM (h e)) s of (out, s') \<Rightarrow> \<exists>evs. trace s' = trace s @ evs \<and>
           (raised evs = [] \<or> (\<exists>c e pre. evs = pre @ [Called c (Some e)] \<and> raised pre = [] \<and> C c \<and> out = Inl (conv c e)))"
    using ms evs r1 h by (cases out) (auto simp: try_except_def raiseM_def)
qed

lemma surfaces_if:
  "(b \<Longrightarrow> surfaces C conv m1) \<Longrightarrow> (\<not> b \<Longrightarrow> surfaces C conv m2) \<Longrightarrow> surfaces C conv (if b then m1 else m2)"
  by simp

lemma surfaces_case_prod:
  "(\<And>a b. surfaces C conv (f a b)) \<Longrightarrow> surfaces C conv (case_prod f x)"
  by (cases x) simp

lemma surfaces_render_json_values: "surfaces C conv render_json_values"
  unfolding render_json_values_def
  by (intro surfaces_bindM surfaces_self_values surfaces_render_json)

lemmas surfaces_intros =
  surfaces_returnM surfaces_raiseM surfaces_liftE surfaces_self_values
  surfaces_self_values_setitem surfaces_self_values_update surfaces_render_json surfaces_redirect
  surfaces_logging_error surfaces_render_template surfaces_bindM surfaces_if surfaces_case_prod surfaces_render_json_values


lemma surfaces_try_const:
  assumes "surfaces C0 conv0 m" and "\<And>c e. C0 c \<Longrightarrow> C c \<and> conv c e = E"
  shows "surfaces C conv (try_except m (\<lambda>e. raiseM E))"
  using assms by (rule surfaces_try_except [where h = "\<lambda>e. E"])

lemma surfaces_get_exploration_player_data:
  "surfaces player_data_call player_data_surfaced
     (get_exploration_player_data svc exploration_id version collection_id can_edit)"
  unfolding get_exploration_player_data_def Let_def service_defs
  apply (rule surfaces_bindM)
   apply (rule surfaces_try_const [where ?C0.0 = "\<lambda>c. \<exists>a. c = Exp_services a" and ?conv0.0 = propagated])
    apply (rule surfaces_call; simp add: propagated_def)
   apply (auto simp: player_data_surfaced_def)[1]
  apply (rule surfaces_bindM)
   apply (rule surfaces_if)
    apply (rule surfaces_try_const [where ?C0.0 = "\<lambda>c. \<exists>a. c = Collection_services a" and ?conv0.0 = propagated])
     apply (intro surfaces_intros surfaces_call; simp add: propagated_def)
    apply (auto simp: player_data_surfaced_def)[1]
   apply (rule surfaces_returnM)
  apply (intro surfaces_intros surfaces_call; simp add: player_data_surfaced_def)
  done

lemma surfaces_ExplorationPage_get:
  "surfaces any_call (surfaced ExplorationPage_GET) (ExplorationPage_get svc self exploration_id)"
  unfolding ExplorationPage_get_def Let_def service_defs
  apply (rule surfaces_bindM, rule surfaces_liftE)
  apply (rule surfaces_bindM, (rule surfaces_call; simp add: any_call_def))
  apply (rule surfaces_if, rule surfaces_redirect)
  apply (rule surfaces_bindM, (rule surfaces_call; simp add: any_call_def))
  apply (rule surfaces_bindM)
   apply (rule surfaces_try_const [OF surfaces_get_exploration_player_data])
   apply (simp add: any_call_def)
  apply (intro surfaces_intros)
  done

lemma surfaces_ExplorationPageEmbed_get:
  "surfaces any_call (surfaced ExplorationPageEmbed_GET) (ExplorationPageEmbed_get svc self exploration_id)"
  unfolding ExplorationPageEmbed_get_def Let_def service_defs
  apply (rule surfaces_bindM, rule surfaces_liftE)
  apply (rule surfaces_bindM, (rule surfaces_call; simp add: any_call_def))
  apply (rule surfaces_bindM, (rule surfaces_call; simp add: any_call_def))
  apply (rule surfaces_bindM, intro surfaces_intros)
  apply (rule surfaces_bindM)
   apply (rule surfaces_try_const [OF surfaces_get_exploration_player_data])
   apply (simp add: any_call_def)
  apply (intro surfaces_intros)
  done

lemma surfaces_ExplorationHandler_get:
  "surfaces any_call (surfaced ExplorationHandler_GET) (ExplorationHandler_get svc self exploration_id)"
  unfolding ExplorationHandler_get_def Let_def service_defs
  apply (rule surfaces_bindM, rule surfaces_liftE)
  apply (rule surfaces_bindM)
   apply (rule surfaces_try_except [where ?C0.0 = "\<lambda>c. \<exists>a. c = Exp_services a" and ?conv0.0 = propagated
                and h = "\<lambda>e. PageNotFoundException (Some e)"])
    apply (rule surfaces_call; simp add: propagated_def)
   apply (auto simp: any_call_def propagated_def)[1]
  apply (intro surfaces_intros surfaces_call; simp add: any_call_def)
  done

lemma surfaces_RecommendationsHandler_get:
  "surfaces any_call propagated (RecommendationsHandler_get svc self exploration_id)"
  unfolding RecommendationsHandler_get_def Let_def service_defs
  apply (rule surfaces_bindM)
   apply (rule surfaces_try_const [where ?C0.0 = "\<lambda>c. False" and ?conv0.0 = propagated])
    apply (rule surfaces_liftE)
   apply simp
  apply (intro surfaces_intros surfaces_call; simp add: any_call_def propagated_def)
  done

lemma surfaces_AnswerSubmittedEventHandler_post:
  "surfaces any_call propagated (AnswerSubmittedEventHandler_post svc self exploration_id)"
  unfolding AnswerSubmittedEventHandler_post_def Let_def service_defs
  by (intro surfaces_intros surfaces_call; simp add: any_call_def propagated_def)

lemma surfaces_StateHitEventHandler_post:
  "surfaces any_call propagated (StateHitEventHandler_post svc self exploration_id)"
  unfolding StateHitEventHandler_post_def Let_def service_defs
  by (intro surfaces_intros surfaces_call; simp add: any_call_def propagated_def)

lemma surfaces_StateCompleteEventHandler_post:
  "surfaces any_call propagated (StateCompleteEventHandler_post svc self exploration_id)"
  unfolding StateCompleteEventHandler_post_def Let_def service_defs
  by (intro surfaces_intros surfaces_call; simp add: any_call_def propagated_def)

lemma surfaces_ClassifyHandler_post:
  "surfaces any_call propagated (ClassifyHandler_post svc self exploration_id)"
  unfolding ClassifyHandler_post_def Let_def service_defs
  by (intro surfaces_intros surfaces_call; simp add: any_call_def propagated_def)

lemma surfaces_ReaderFeedbackHandler_post:
  "surfaces any_call propagated (ReaderFeedbackHandler_post svc self exploration_id)"
  unfolding ReaderFeedbackHandler_post_def Let_def service_defs
  by (intro surfaces_intros surfaces_call; simp add: any_call_def propagated_def)

lemma surfaces_ExplorationStartEventHandler_post:
  "surfaces any_call propagated (ExplorationStartEventHandler_post svc self exploration_id)"
  unfolding ExplorationStartEventHandler_post_def Let_def service_defs
  by (intro surfaces_intros surfaces_call; simp add: any_call_def propagated_def)

lemma surfaces_ExplorationActualStartEventHandler_post:
  "surfaces any_call propagated (ExplorationActualStartEventHandler_post svc self exploration_id)"
  unfolding ExplorationActualStartEventHandler_post_def Let_def service_defs
  by (intro surfaces_intros surfaces_call; simp add: any_call_def propagated_def)

lemma surfaces_SolutionHitEventHandler_post:
  "surfaces any_call propagated (SolutionHitEventHandler_post svc self exploration_id)"
  unfolding SolutionHitEventHandler_post_def Let_def service_defs
  by (intro surfaces_intros surfaces_call; simp add: any_call_def propagated_def)

lemma surfaces_ExplorationCompleteEventHandler_post:
  "surfaces any_call propagated (ExplorationCompleteEventHandler_post svc self exploration_id)"
  unfolding ExplorationCompleteEventHandler_post_def Let_def service_defs
  by (intro surfaces_intros surfaces_call; simp add: any_call_def propagated_def)

lemma surfaces_ExplorationMaybeLeaveHandler_post:
  "surfaces any_call propagated (ExplorationMaybeLeaveHandler_post svc self exploration_id)"
  unfolding ExplorationMaybeLeaveHandler_post_def Let_def service_defs
  by (intro surfaces_intros surfaces_call; simp add: any_call_def propagated_def)

lemma surfaces_RatingHandler_get:
  "surfaces any_call propagated (RatingHandler_get svc self exploration_id)"
  unfolding RatingHandler_get_def Let_def service_defs
  by (intro surfaces_intros surfaces_call; simp add: any_call_def propagated_def)

lemma surfaces_RatingHandler_put:
  "surfaces any_call propagated (RatingHandler_put svc self exploration_id)"
  unfolding RatingHandler_put_def Let_def service_defs
  by (intro surfaces_intros surfaces_call; simp add: any_call_def propagated_def)

lemma surfaces_FlagExplorationHandler_post:
  "surfaces any_call propagated (FlagExplorationHandler_post svc self exploration_id)"
  unfolding FlagExplorationHandler_post_def Let_def service_defs
  by (intro surfaces_intros surfaces_call; simp add: any_call_def propagated_def)

lemma surfaces_LearnerIncompleteActivityHandler_delete:
  "surfaces any_call propagated (LearnerIncompleteActivityHandler_delete svc self activity_type activity_id)"
  unfolding LearnerIncompleteActivityHandler_delete_def Let_def service_defs
  by (intro surfaces_intros surfaces_call; simp add: any_call_def propagated_def)

lemma surfaced_other:
  "ep \<noteq> ExplorationPage_GET \<Longrightarrow> ep \<noteq> ExplorationPageEmbed_GET \<Longrightarrow> ep \<noteq> ExplorationHandler_GET \<Longrightarrow> surfaced ep = propagated"
  by (cases ep) (auto simp: propagated_def intro!: ext)

lemma surfaces_method_body: "surfaces any_call (surfaced ep) (method_body svc ep self arg1 arg2)"
  by (cases ep)
     (simp_all add: surfaced_other surfaces_ExplorationPage_get surfaces_ExplorationPageEmbed_get
        surfaces_ExplorationHandler_get surfaces_RecommendationsHandler_get
        surfaces_AnswerSubmittedEventHandler_post surfaces_StateHitEventHandler_post
        surfaces_StateCompleteEventHandler_post surfaces_ClassifyHandler_post
        surfaces_ReaderFeedbackHandler_post surfaces_ExplorationStartEventHandler_post
        surfaces_ExplorationActualStartEventHandler_post surfaces_SolutionHitEventHandler_post
        surfaces_ExplorationCompleteEventHandler_post surfaces_ExplorationMaybeLeaveHandler_post
        surfaces_RatingHandler_get surfaces_RatingHandler_put surfaces_FlagExplorationHandler_post
        surfaces_LearnerIncompleteActivityHandler_delete)

lemma raised_mem: "Called c (Some e) \<in> set evs \<Longrightarrow> (c, e) \<in> set (raised evs)"
  by (induction evs rule: raised.induct) auto

lemma surfaces_from:
  assumes "surfaces C conv m" and "m s = (out, s')" and "raised (trace s) = []"
    and "Called c (Some e) \<in> set (trace s')"
  shows "out = Inl (conv c e) \<and> last (trace s') = Called c (Some e) \<and> raised (trace s') = [(c, e)] \<and> C c"
proof -
  from assms(1,2) obtain evs where evs: "trace s' = trace s @ evs"
    and r: "raised evs = [] \<or> (\<exists>c e pre. evs = pre @ [Called c (Some e)] \<and> raised pre = [] \<and> C c \<and> out = Inl (conv c e))"
    unfolding surfaces_def by (auto split: prod.splits dest!: spec[of _ s])
  have "(c, e) \<in> set (raised (trace s'))" using assms(4) by (rule raised_mem)
  then have ne: "(c, e) \<in> set (raised evs)" using evs assms(3) by (simp add: raised_append)
  then have "raised evs \<noteq> []" by auto
  with r obtain c' e' pre where p: "evs = pre @ [Called c' (Some e')]" "raised pre = []" "C c'" "out = Inl (conv c' e')"
    by blast
  then have "raised evs = [(c', e')]" by (simp add: raised_append)
  with ne have "c' = c" "e' = e" by auto
  then show ?thesis using p evs assms(3) by (simp add: raised_append)
qed

lemma surfaces_run:
  assumes "surfaces C conv m" and "run m values0 w = (out, s')"
    and "Called c (Some e) \<in> set (trace s')"
  shows "out = Inl (conv c e) \<and> last (trace s') = Called c (Some e) \<and> raised (trace s') = [(c, e)] \<and> C c"
  using surfaces_from [OF assms(1) assms(2) [unfolded run_def] _ assms(3)] by simp

lemma decorated_trace:
  assumes "surfaces C conv body"
    and "run (bindM (call c f) (\<lambda>u. body)) values0 w = (out, s')"
  shows "\<exists>r rest. trace s' = Called c r # rest
           \<and> (\<forall>e. r = Some e \<longrightarrow> rest = [] \<and> out = Inl e \<and> vals s' = values0)"
proof -
  obtain r w1 where f: "f w = (r, w1)" by (cases "f w")
  show ?thesis
  proof (cases r)
    case (Inl e)
    then show ?thesis using f assms(2) by (auto simp: run_def bindM_def call_def)
  next
    case (Inr u)
    let ?s1 = "\<lparr>world = w1, vals = values0, trace = [Called c None]\<rparr>"
    have "body ?s1 = (out, s')" using Inr f assms(2) by (auto simp: run_def bindM_def call_def)
    with assms(1) obtain evs where "trace s' = trace ?s1 @ evs"
      unfolding surfaces_def by (auto split: prod.splits dest!: spec[of _ ?s1])
    then show ?thesis by simp
  qed
qed


lemmas run_defs = run_def monad_defs service_defs Let_def payload_defs request_get_def version_of_def

text \<open>
  Claim C6, as the code has it. When a service call of a method raises, the request ends
  there: the raising call is the last event of the trace and the only call that raised (no
  retry, no recovery), and the method ends in \<open>surfaced ep c e\<close>. That is the exception
  \<open>e\<close> itself, unchanged, except inside the three \<^verbatim>\<open>try\<close> blocks: \<open>ExplorationPage.get\<close>
  and \<open>ExplorationPageEmbed.get\<close> turn every exception raised within
  \<open>get_exploration_player_data\<close> into a bare page-not-found error, and
  \<open>ExplorationHandler.get\<close> wraps whatever the exploration lookup raised into one.
\<close>

theorem service_exceptions_surface:
  assumes "run (method_body svc ep self arg1 arg2) values0 w = (out, s')"
    and "Called c (Some e) \<in> set (trace s')"
  shows "out = Inl (surfaced ep c e)
       \<and> last (trace s') = Called c (Some e)
       \<and> raised (trace s') = [(c, e)]"
  using surfaces_run [OF surfaces_method_body assms] by simp

theorem service_exceptions_surface_witness:
  "fst (run (method_body services_missing_exploration AnswerSubmittedEventHandler_POST
               example_handler ''exp1'' []) [] 0)
     = Inl (ServiceError ''Entity not found'')
   \<and> raised (trace (snd (run (method_body services_missing_exploration
                                  AnswerSubmittedEventHandler_POST example_handler ''exp1'' []) [] 0)))
     = [(Exp_services (Get_exploration_by_id ''exp1'' PNone), ServiceError ''Entity not found'')]"
proof -
  let ?R = "run (method_body services_missing_exploration AnswerSubmittedEventHandler_POST
                   example_handler ''exp1'' []) [] 0"
  have r: "?R = (fst ?R, snd ?R)" by simp
  have m: "Called (Exp_services (Get_exploration_by_id ''exp1'' PNone))
             (Some (ServiceError ''Entity not found'')) \<in> set (trace (snd ?R))"
    by (simp add: AnswerSubmittedEventHandler_post_def run_defs services_missing_exploration_def
          example_defs)
  show ?thesis using service_exceptions_surface [OF r m] by simp
qed

text \<open>
  Claim C6 as stated fails: the rights check \<^verbatim>\<open>rights_manager.is_exploration_private\<close>
  is no lookup and its timeout is no not-found condition, yet \<open>ExplorationPage.get\<close>
  answers it with a page-not-found error.
\<close>

theorem player_data_exception_becomes_page_not_found:
  "fst (run (ExplorationPage_get services_private_check_fails example_handler ''exp1'') [] 0)
     = Inl (PageNotFoundException None)
   \<and> last (trace (snd (run (ExplorationPage_get services_private_check_fails
                              example_handler ''exp1'') [] 0)))
     = Called (Rights_manager (Is_exploration_private ''exp1''))
         (Some (ServiceError ''Deadline exceeded''))"
  by (simp add: ExplorationPage_get_def get_exploration_player_data_def run_defs
        services_private_check_fails_def example_defs)

subsection \<open>Missing explorations and collections\<close>

text \<open>
  Claim C1, as the code has it. In \<open>ExplorationPage.get\<close>, \<open>ExplorationPageEmbed.get\<close>
  and \<open>ExplorationHandler.get\<close>, when the lookup of the exploration raises (for the two
  pages also the lookup of the collection), the request ends in a page-not-found error
  and not in the exception of the service; \<open>ExplorationHandler.get\<close> hands that exception
  to the page-not-found error as its argument.
\<close>

theorem lookup_failure_is_page_not_found:
  assumes "ep = ExplorationPage_GET \<or> ep = ExplorationPageEmbed_GET \<or> ep = ExplorationHandler_GET"
    and "run (method_body svc ep self exploration_id arg2) values0 w = (out, s')"
    and "c = Exp_services (Get_exploration_by_id exploration_id version)
         \<or> ep \<noteq> ExplorationHandler_GET
            \<and> c = Collection_services (Get_collection_by_id collection_id)"
    and "Called c (Some e) \<in> set (trace s')"
  shows "out = Inl (PageNotFoundException (if ep = ExplorationHandler_GET then Some e else None))"
proof -
  have "out = Inl (surfaced ep c e)"
    using surfaces_run [OF surfaces_method_body assms(2) assms(4)] by simp
  then show ?thesis using assms(1) assms(3) by auto
qed

lemma page_missing_exploration_run:
  "run (method_body services_missing_exploration ExplorationPage_GET example_handler ''exp1'' [])
     [] 0 =
     (Inl (PageNotFoundException None),
      \<lparr>world = 0, vals = [],
       trace = [Called (Rights_manager (Get_exploration_rights ''exp1'' False)) None,
                Called (Rights_manager (Check_can_edit_activity (PStr ''user'') (PStr ''rights'')))
                  None,
                Called (Exp_services (Get_exploration_by_id ''exp1'' PNone))
                  (Some (ServiceError ''Entity not found''))]\<rparr>)"
  by (simp add: ExplorationPage_get_def get_exploration_player_data_def run_defs
        services_missing_exploration_def example_defs)

theorem lookup_failure_is_page_not_found_witness:
  "fst (run (method_body services_missing_exploration ExplorationPage_GET
               example_handler ''exp1'' []) [] 0)
     = Inl (PageNotFoundException None)
   \<and> Called (Exp_services (Get_exploration_by_id ''exp1'' PNone))
         (Some (ServiceError ''Entity not found''))
       \<in> set (trace (snd (run (method_body services_missing_exploration ExplorationPage_GET
                                  example_handler ''exp1'' []) [] 0)))"
proof -
  let ?R = "run (method_body services_missing_exploration ExplorationPage_GET
                   example_handler ''exp1'' []) [] 0"
  have r: "?R = (fst ?R, snd ?R)" by simp
  have m: "Called (Exp_services (Get_exploration_by_id ''exp1'' PNone))
             (Some (ServiceError ''Entity not found'')) \<in> set (trace (snd ?R))"
    using page_missing_exploration_run by simp
  have e: "ExplorationPage_GET = ExplorationPage_GET \<or> ExplorationPage_GET = ExplorationPageEmbed_GET
       \<or> ExplorationPage_GET = ExplorationHandler_GET" by simp
  have c: "Exp_services (Get_exploration_by_id ''exp1'' PNone)
             = Exp_services (Get_exploration_by_id ''exp1'' PNone)
     \<or> ExplorationPage_GET \<noteq> ExplorationHandler_GET \<and>
        Exp_services (Get_exploration_by_id ''exp1'' PNone)
          = Collection_services (Get_collection_by_id [])"
    by simp
  show ?thesis using lookup_failure_is_page_not_found [OF e r c m] m by simp
qed

text \<open>
  Claim C1 as stated fails for \<open>AnswerSubmittedEventHandler.post\<close>: its lookup of the
  exploration stands in no \<^verbatim>\<open>try\<close> block, and the exception of the storage service
  is what the request ends in.
\<close>

theorem answer_submitted_lookup_failure_propagates:
  "run (AnswerSubmittedEventHandler_post services_missing_exploration example_handler ''exp1'') [] 0 =
     (Inl (ServiceError ''Entity not found''),
      \<lparr>world = 0, vals = [],
       trace = [Called (Exp_services (Get_exploration_by_id ''exp1'' PNone))
                  (Some (ServiceError ''Entity not found''))]\<rparr>)"
  by (simp add: AnswerSubmittedEventHandler_post_def run_defs services_missing_exploration_def
        example_defs)

subsection \<open>Authorization\<close>

text \<open>
  Claim C7. Every method of the module stands under an ACL decorator, and the decorator
  is the one the operation calls for (\<open>required_check\<close>). So the first event of every
  request is that authorization check, nothing of the method's body comes before it, and
  when the check refuses (raises) the request ends there, in the exception of the check:
  the body has not run, no other call was made and the template values are untouched.
\<close>

theorem authorization_check_comes_first:
  assumes "run (endpoint_method svc ep self arg1 arg2) values0 w = (out, s')"
  shows "\<exists>r rest. trace s' = Called (Acl_decorators (required_check ep arg1)) r # rest
           \<and> (\<forall>e. r = Some e \<longrightarrow> rest = [] \<and> out = Inl e \<and> vals s' = values0)"
  using assms
  by (cases ep)
     (simp_all add: can_play_exploration_def can_rate_exploration_def can_flag_exploration_def
        can_access_learner_dashboard_def
        decorated_trace [OF surfaces_method_body [where ep = ep, simplified]])

theorem authorization_check_comes_first_witness:
  "run (endpoint_method services_flag_refused FlagExplorationHandler_POST
          example_handler ''exp1'' []) [] 0
     = (Inl (ServiceError ''You do not have credentials to flag''),
        \<lparr>world = 0, vals = [],
         trace = [Called (Acl_decorators (Can_flag_exploration ''exp1''))
                    (Some (ServiceError ''You do not have credentials to flag''))]\<rparr>)"
proof -
  let ?R = "run (endpoint_method services_flag_refused FlagExplorationHandler_POST
                   example_handler ''exp1'' []) [] 0"
  have r: "?R = (fst ?R, snd ?R)" by simp
  have h: "hd (trace (snd ?R)) = Called (Acl_decorators (Can_flag_exploration ''exp1''))
                                   (Some (ServiceError ''You do not have credentials to flag''))"
    and w: "world (snd ?R) = 0"
    by (simp_all add: can_flag_exploration_def FlagExplorationHandler_post_def run_defs
          services_flag_refused_def example_defs)
  from authorization_check_comes_first [OF r] obtain x rest
    where t: "trace (snd ?R) = Called (Acl_decorators (Can_flag_exploration ''exp1'')) x # rest"
      and d: "\<forall>e. x = Some e \<longrightarrow> rest = [] \<and> fst ?R = Inl e \<and> vals (snd ?R) = []"
    by auto
  from h t have "x = Some (ServiceError ''You do not have credentials to flag'')" by simp
  with d t have "fst ?R = Inl (ServiceError ''You do not have credentials to flag'')"
    and "vals (snd ?R) = []"
    and "trace (snd ?R) = [Called (Acl_decorators (Can_flag_exploration ''exp1''))
                             (Some (ServiceError ''You do not have credentials to flag''))]"
    by simp_all
  with w have "snd ?R = \<lparr>world = 0, vals = [],
         trace = [Called (Acl_decorators (Can_flag_exploration ''exp1''))
                    (Some (ServiceError ''You do not have credentials to flag''))]\<rparr>"
    by (cases "snd ?R") simp
  with \<open>fst ?R = Inl (ServiceError ''You do not have credentials to flag'')\<close> show ?thesis
    by (metis r)
qed

subsection \<open>Event tracking\<close>

lemma bindM_returnM: "bindM (returnM x) f = f x"
  by (rule ext) (simp add: bindM_def returnM_def)

lemma bindM_assoc: "bindM (bindM m f) g = bindM m (\<lambda>x. bindM (f x) g)"
  by (rule ext) (simp add: bindM_def split: prod.splits sum.splits)

lemma bindM_if: "bindM (if b then m1 else m2) f = (if b then bindM m1 f else bindM m2 f)"
  by simp

lemma bindM_liftE_Inr: "r = Inr x \<Longrightarrow> bindM (liftE r) f = f x"
  by (rule ext) (simp add: bindM_def liftE_def)

lemma bindM_call_cases:
  assumes "bindM (call c f) g s = (out, s')"
  obtains (raise) e w' where "f (world s) = (Inl e, w')" "out = Inl e"
      "s' = s\<lparr>world := w', trace := trace s @ [Called c (Some e)]\<rparr>"
  | (return) x w' where "f (world s) = (Inr x, w')"
      "g x (s\<lparr>world := w', trace := trace s @ [Called c None]\<rparr>) = (out, s')"
proof (cases "f (world s)")
  case (Pair r w')
  show ?thesis
  proof (cases r)
    case (Inl e)
    with Pair assms raise show ?thesis by (auto simp: bindM_def call_def)
  next
    case (Inr x)
    with Pair assms return show ?thesis by (auto simp: bindM_def call_def)
  qed
qed

lemma call_cases:
  assumes "call c f s = (out, s')"
  obtains (raise) e w' where "f (world s) = (Inl e, w')" "out = Inl e"
      "s' = s\<lparr>world := w', trace := trace s @ [Called c (Some e)]\<rparr>"
  | (return) x w' where "f (world s) = (Inr x, w')" "out = Inr x"
      "s' = s\<lparr>world := w', trace := trace s @ [Called c None]\<rparr>"
proof (cases "f (world s)")
  case (Pair r w')
  show ?thesis
  proof (cases r)
    case (Inl e)
    with Pair assms raise show ?thesis by (auto simp: call_def)
  next
    case (Inr x)
    with Pair assms return show ?thesis by (auto simp: call_def)
  qed
qed

lemma render_json_run: "render_json v s = (Inr (), s\<lparr>trace := trace s @ [RenderJson v]\<rparr>)"
  by (simp add: render_json_def emit_def)

lemma render_json_values_run:
  "render_json_values s = (Inr (), s\<lparr>trace := trace s @ [RenderJson (PDict (vals s))]\<rparr>)"
  by (simp add: render_json_values_def bindM_def self_values_def render_json_def emit_def)

lemmas step_simps = bindM_returnM bindM_assoc bindM_if render_json_run render_json_values_run
  raised_append Let_def service_defs run_def

lemma recorded_StateHitEventHandler_post:
  assumes "run (StateHitEventHandler_post svc self eid) values0 w = (out, s')"
    and "raised (trace s') = []"
    and "payload_get self ''new_state_name'' \<noteq> PNone"
  shows "out = Inr () \<and> (\<exists>c v. event_recorded svc StateHitEventHandler_POST self eid c
      \<and> Called (Event_services c) None \<in> set (butlast (trace s')) \<and> last (trace s') = RenderJson v)"
  using assms unfolding StateHitEventHandler_post_def
  by (auto simp: step_simps event_recorded_def elim!: bindM_call_cases)

lemma recorded_StateCompleteEventHandler_post:
  assumes "run (StateCompleteEventHandler_post svc self eid) values0 w = (out, s')"
    and "raised (trace s') = []"
    and "ENABLE_NEW_STATS_FRAMEWORK (feconf svc)"
  shows "out = Inr () \<and> (\<exists>c v. event_recorded svc StateCompleteEventHandler_POST self eid c
      \<and> Called (Event_services c) None \<in> set (butlast (trace s')) \<and> last (trace s') = RenderJson v)"
  using assms unfolding StateCompleteEventHandler_post_def
  by (auto simp: step_simps event_recorded_def elim!: bindM_call_cases)

lemma recorded_ExplorationStartEventHandler_post:
  assumes "run (ExplorationStartEventHandler_post svc self eid) values0 w = (out, s')"
    and "raised (trace s') = []"
  shows "out = Inr () \<and> (\<exists>c v. event_recorded svc ExplorationStartEventHandler_POST self eid c
      \<and> Called (Event_services c) None \<in> set (butlast (trace s')) \<and> last (trace s') = RenderJson v)"
  using assms unfolding ExplorationStartEventHandler_post_def
  by (auto simp: step_simps event_recorded_def elim!: bindM_call_cases)

lemma recorded_ExplorationActualStartEventHandler_post:
  assumes "run (ExplorationActualStartEventHandler_post svc self eid) values0 w = (out, s')"
    and "raised (trace s') = []"
    and "ENABLE_NEW_STATS_FRAMEWORK (feconf svc)"
  shows "out = Inr () \<and> (\<exists>c v. event_recorded svc ExplorationActualStartEventHandler_POST self eid c
      \<and> Called (Event_services c) None \<in> set (butlast (trace s')) \<and> last (trace s') = RenderJson v)"
  using assms unfolding ExplorationActualStartEventHandler_post_def
  by (auto simp: step_simps event_recorded_def elim!: bindM_call_cases)

lemma recorded_SolutionHitEventHandler_post:
  assumes "run (SolutionHitEventHandler_post svc self eid) values0 w = (out, s')"
    and "raised (trace s') = []"
    and "ENABLE_NEW_STATS_FRAMEWORK (feconf svc)"
  shows "out = Inr () \<and> (\<exists>c v. event_recorded svc SolutionHitEventHandler_POST self eid c
      \<and> Called (Event_services c) None \<in> set (butlast (trace s')) \<and> last (trace s') = RenderJson v)"
  using assms unfolding SolutionHitEventHandler_post_def
  by (auto simp: step_simps event_recorded_def elim!: bindM_call_cases)

lemma recorded_ExplorationCompleteEventHandler_post:
  assumes "run (ExplorationCompleteEventHandler_post svc self eid) values0 w = (out, s')"
    and "raised (trace s') = []"
  shows "out = Inr () \<and> (\<exists>c v. event_recorded svc ExplorationCompleteEventHandler_POST self eid c
      \<and> Called (Event_services c) None \<in> set (butlast (trace s')) \<and> last (trace s') = RenderJson v)"
proof (cases "py_bool (user_id self)")
  case False
  with assms show ?thesis unfolding ExplorationCompleteEventHandler_post_def
    by (auto simp: step_simps event_recorded_def elim!: bindM_call_cases)
next
  case u: True
  show ?thesis
  proof (cases "py_bool (payload_get self ''collection_id'')")
    case False
    with u assms show ?thesis unfolding ExplorationCompleteEventHandler_post_def
      by (auto simp: step_simps event_recorded_def elim!: bindM_call_cases)
  next
    case True
    with u assms show ?thesis unfolding ExplorationCompleteEventHandler_post_def
      by (auto simp: step_simps event_recorded_def elim!: bindM_call_cases split: if_splits)
  qed
qed

lemma recorded_ExplorationMaybeLeaveHandler_post:
  assumes "run (ExplorationMaybeLeaveHandler_post svc self eid) values0 w = (out, s')"
    and "raised (trace s') = []"
  shows "out = Inr () \<and> (\<exists>c v. event_recorded svc ExplorationMaybeLeaveHandler_POST self eid c
      \<and> Called (Event_services c) None \<in> set (butlast (trace s')) \<and> last (trace s') = RenderJson v)"
proof (cases "py_bool (user_id self)")
  case False
  with assms show ?thesis unfolding ExplorationMaybeLeaveHandler_post_def
    by (auto simp: step_simps event_recorded_def elim!: bindM_call_cases)
next
  case u: True
  show ?thesis
  proof (cases "py_bool (payload_get self ''collection_id'')")
    case False
    with u assms show ?thesis unfolding ExplorationMaybeLeaveHandler_post_def
      by (auto simp: step_simps event_recorded_def elim!: bindM_call_cases)
  next
    case True
    with u assms show ?thesis unfolding ExplorationMaybeLeaveHandler_post_def
      by (auto simp: step_simps event_recorded_def elim!: bindM_call_cases)
  qed
qed

lemma recorded_AnswerSubmittedEventHandler_post:
  assumes "run (AnswerSubmittedEventHandler_post svc self eid) values0 w = (out, s')"
    and "raised (trace s') = []"
    and "\<forall>x w1. get_exploration_by_id (exp_services svc) eid (payload_get self ''version'') w = (Inr x, w1)
           \<longrightarrow> (\<exists>st. states_getitem (exp_states x) (payload_get self ''old_state_name'') = Inr st)"
  shows "out = Inr () \<and> (\<exists>c v. event_recorded svc AnswerSubmittedEventHandler_POST self eid c
      \<and> Called (Event_services c) None \<in> set (butlast (trace s')) \<and> last (trace s') = RenderJson v)"
  using assms unfolding AnswerSubmittedEventHandler_post_def
  by (auto simp: step_simps event_recorded_def bindM_liftE_Inr elim!: bindM_call_cases)

text \<open>
  Claim C3, as the code has it. A POST to one of the eight event-tracking endpoints with a
  well-formed payload, during which no service call raises, records the endpoint's event
  through \<^verbatim>\<open>event_services\<close> and afterwards answers with JSON, provided the endpoint's
  condition holds: the state-complete, actual-start and solution-hit events are recorded
  only when \<^verbatim>\<open>feconf.ENABLE_NEW_STATS_FRAMEWORK\<close> is set, and a state-hit event only when
  the payload names a new state. For an answer, well-formed means that \<open>old_state_name\<close>
  names a state of the exploration.
\<close>

theorem events_recorded_then_json:
  assumes "ep \<in> set event_endpoints"
    and "run (method_body svc ep self exploration_id arg2) values0 w = (out, s')"
    and "raised (trace s') = []"
    and "event_gate svc ep self"
    and "ep = AnswerSubmittedEventHandler_POST \<longrightarrow>
           (\<forall>x w1. get_exploration_by_id (exp_services svc) exploration_id
                      (payload_get self ''version'') w = (Inr x, w1)
              \<longrightarrow> (\<exists>st. states_getitem (exp_states x) (payload_get self ''old_state_name'') = Inr st))"
  shows "out = Inr ()
       \<and> (\<exists>c v. event_recorded svc ep self exploration_id c
             \<and> Called (Event_services c) None \<in> set (butlast (trace s'))
             \<and> last (trace s') = RenderJson v)"
proof -
  from assms(1) consider
      "ep = AnswerSubmittedEventHandler_POST" | "ep = StateHitEventHandler_POST"
    | "ep = StateCompleteEventHandler_POST" | "ep = ExplorationStartEventHandler_POST"
    | "ep = ExplorationActualStartEventHandler_POST" | "ep = SolutionHitEventHandler_POST"
    | "ep = ExplorationCompleteEventHandler_POST" | "ep = ExplorationMaybeLeaveHandler_POST"
    by (auto simp: event_endpoints_def)
  then show ?thesis
  proof cases
    case 1
    with assms recorded_AnswerSubmittedEventHandler_post [of svc self exploration_id values0 w out s']
    show ?thesis by simp
  next
    case 2
    with assms recorded_StateHitEventHandler_post [of svc self exploration_id values0 w out s']
    show ?thesis by simp
  next
    case 3
    with assms recorded_StateCompleteEventHandler_post [of svc self exploration_id values0 w out s']
    show ?thesis by simp
  next
    case 4
    with assms recorded_ExplorationStartEventHandler_post [of svc self exploration_id values0 w out s']
    show ?thesis by simp
  next
    case 5
    with assms recorded_ExplorationActualStartEventHandler_post [of svc self exploration_id values0 w out s']
    show ?thesis by simp
  next
    case 6
    with assms recorded_SolutionHitEventHandler_post [of svc self exploration_id values0 w out s']
    show ?thesis by simp
  next
    case 7
    with assms recorded_ExplorationCompleteEventHandler_post [of svc self exploration_id values0 w out s']
    show ?thesis by simp
  next
    case 8
    with assms recorded_ExplorationMaybeLeaveHandler_post [of svc self exploration_id values0 w out s']
    show ?thesis by simp
  qed
qed

theorem events_recorded_then_json_witness:
  "fst (run (method_body example_services AnswerSubmittedEventHandler_POST
          (example_handler\<lparr>payload := example_answer_payload\<rparr>) ''exp1'' []) [] 0) = Inr ()
   \<and> Called (Event_services (AnswerSubmissionEventHandler_record ''exp1'' (PInt 3) (PStr ''Intro'')
        (PStr ''TextInput'') (PInt 0) (PInt 1) (PStr ''explicit'') (PStr ''s1'') (PInt 12) (PDict [])
        (PStr ''1/2''))) None
       \<in> set (trace (snd (run (method_body example_services AnswerSubmittedEventHandler_POST
          (example_handler\<lparr>payload := example_answer_payload\<rparr>) ''exp1'' []) [] 0)))"
proof -
  let ?self = "example_handler\<lparr>payload := example_answer_payload\<rparr>"
  let ?R = "run (method_body example_services AnswerSubmittedEventHandler_POST ?self ''exp1'' []) [] 0"
  have t: "trace (snd ?R) =
     [Called (Exp_services (Get_exploration_by_id ''exp1'' (PInt 3))) None,
      Called (Interaction_registry (Get_interaction_by_id (PStr ''TextInput''))) None,
      Called (Interaction_registry (Normalize_answer (PStr ''TextInput'') (PStr ''1/2''))) None,
      Called (Event_services (AnswerSubmissionEventHandler_record ''exp1'' (PInt 3) (PStr ''Intro'')
        (PStr ''TextInput'') (PInt 0) (PInt 1) (PStr ''explicit'') (PStr ''s1'') (PInt 12) (PDict [])
        (PStr ''1/2''))) None,
      RenderJson (PDict [])]"
    by (simp add: AnswerSubmittedEventHandler_post_def run_defs example_defs example_answer_payload_def
          states_getitem_def)
  have a: "AnswerSubmittedEventHandler_POST \<in> set event_endpoints" by (simp add: event_endpoints_def)
  have r: "?R = (fst ?R, snd ?R)" by simp
  have n: "raised (trace (snd ?R)) = []" using t by simp
  have g: "event_gate example_services AnswerSubmittedEventHandler_POST ?self" by simp
  have wf: "AnswerSubmittedEventHandler_POST = AnswerSubmittedEventHandler_POST \<longrightarrow>
           (\<forall>x w1. get_exploration_by_id (exp_services example_services) ''exp1''
                      (payload_get ?self ''version'') 0 = (Inr x, w1)
              \<longrightarrow> (\<exists>st. states_getitem (exp_states x) (payload_get ?self ''old_state_name'') = Inr st))"
    by (auto simp add: example_defs example_answer_payload_def payload_defs states_getitem_def)
  from events_recorded_then_json [OF a r n g wf] have "fst ?R = Inr ()" by simp
  then show ?thesis using t by simp
qed


text \<open>
  Claim C3 as stated fails where the new statistics framework is switched off: a
  well-formed state-complete request is answered with JSON and nothing is recorded.
\<close>

theorem state_complete_not_recorded_when_stats_disabled:
  "run (StateCompleteEventHandler_post services_stats_disabled
          (example_handler\<lparr>payload := [(''exp_version'', PInt 3), (''state_name'', PStr ''Intro''),
             (''session_id'', PStr ''s1''), (''time_spent_in_state_secs'', PInt 12)]\<rparr>) ''exp1'') [] 0
     = (Inr (), \<lparr>world = 0, vals = [], trace = [RenderJson (PDict [])]\<rparr>)"
  by (simp add: StateCompleteEventHandler_post_def run_defs services_stats_disabled_def example_defs)


subsection \<open>The init endpoint\<close>

text \<open>
  The loop over the states: it succeeds when the list of jobs has an entry for every
  state; the keys of its result are the names paired with a job that is not \<open>None\<close>
  (beside the keys it started with); and, the names being distinct as the keys of a dict
  are, such a name is mapped to the three attributes of its job.
\<close>

lemma loop_succeeds:
  "index + length names \<le> length jobs \<Longrightarrow>
     \<exists>m. state_classifier_mapping_loop jobs index names acc = Inr m"
  by (induction names arbitrary: index acc) (auto simp: list_getitem_def split: option.splits)

lemma loop_step:
  assumes "state_classifier_mapping_loop jobs index (n # rest) acc = Inr m"
  shows "index < length jobs
       \<and> state_classifier_mapping_loop jobs (Suc index) rest
            (case jobs ! index of None \<Rightarrow> acc | Some job \<Rightarrow> AList.update n (job_dict job) acc) = Inr m"
  using assms by (auto simp: list_getitem_def job_dict_def split: if_splits option.splits)

lemma loop_keys:
  "state_classifier_mapping_loop jobs index names acc = Inr m \<Longrightarrow>
     fst ` set m = fst ` set acc \<union> {n. \<exists>job. (n, Some job) \<in> set (zip names (drop index jobs))}"
proof (induction names arbitrary: index acc)
  case Nil
  then show ?case by simp
next
  case (Cons n rest)
  from loop_step [OF Cons.prems] have lt: "index < length jobs"
    and rec: "state_classifier_mapping_loop jobs (Suc index) rest
            (case jobs ! index of None \<Rightarrow> acc | Some job \<Rightarrow> AList.update n (job_dict job) acc) = Inr m"
    by simp_all
  have d: "drop index jobs = jobs ! index # drop (Suc index) jobs"
    using lt by (simp add: Cons_nth_drop_Suc)
  show ?case
    using Cons.IH [OF rec] d
    by (cases "jobs ! index") (auto simp: dom_update)
qed

lemma loop_other:
  "state_classifier_mapping_loop jobs index names acc = Inr m \<Longrightarrow> k \<notin> set names \<Longrightarrow>
     map_of m k = map_of acc k"
proof (induction names arbitrary: index acc)
  case Nil
  then show ?case by simp
next
  case (Cons n rest)
  from loop_step [OF Cons.prems(1)] have
    rec: "state_classifier_mapping_loop jobs (Suc index) rest
            (case jobs ! index of None \<Rightarrow> acc | Some job \<Rightarrow> AList.update n (job_dict job) acc) = Inr m"
    by simp
  show ?case
    using Cons.IH [OF rec] Cons.prems(2)
    by (cases "jobs ! index") (auto simp: update_conv')
qed

lemma loop_lookup:
  "state_classifier_mapping_loop jobs index names acc = Inr m \<Longrightarrow> distinct names \<Longrightarrow>
     (n, Some job) \<in> set (zip names (drop index jobs)) \<Longrightarrow> map_of m n = Some (job_dict job)"
proof (induction names arbitrary: index acc)
  case Nil
  then show ?case by simp
next
  case (Cons n' rest)
  from loop_step [OF Cons.prems(1)] have lt: "index < length jobs"
    and rec: "state_classifier_mapping_loop jobs (Suc index) rest
            (case jobs ! index of None \<Rightarrow> acc | Some job \<Rightarrow> AList.update n' (job_dict job) acc) = Inr m"
    by simp_all
  have d: "drop index jobs = jobs ! index # drop (Suc index) jobs"
    using lt by (simp add: Cons_nth_drop_Suc)
  from Cons.prems(3) d
  consider "n = n'" "jobs ! index = Some job"
    | "(n, Some job) \<in> set (zip rest (drop (Suc index) jobs))"
    by auto
  then show ?case
  proof cases
    case 1
    then have "map_of m n = map_of (AList.update n' (job_dict job) acc) n"
      using loop_other [OF rec, of n] Cons.prems(2) by simp
    then show ?thesis using 1 by (simp add: update_conv')
  next
    case 2
    then show ?thesis using Cons.IH [OF rec] Cons.prems(2) by simp
  qed
qed


text \<open>
  Claim C4. A GET to the init endpoint for an existing exploration (the lookup returns
  it), where the services the handler calls return, the classifier service gives a job
  entry for every state and the state names are distinct (they are the keys of a dict),
  answers with JSON that holds: under \<open>exploration\<close> the exploration's player dict;
  under \<open>state_classifier_mapping\<close> a mapping whose keys are exactly the state names
  whose training job is not \<open>None\<close>, each mapped to the job's \<open>algorithm_id\<close>,
  \<open>classifier_data\<close> and \<open>data_schema_version\<close>; under \<open>session_id\<close> the id that
  \<^verbatim>\<open>utils.generate_new_session_id\<close> generated during this request; and under
  \<open>version\<close> the exploration's version.
\<close>

theorem init_response_contents:
  assumes v: "version_of svc (request_get self ''v'') = Inr version"
    and l: "get_exploration_by_id (exp_services svc) exploration_id version w = (Inr exploration, w1)"
    and r: "get_exploration_rights (rights_manager svc) exploration_id False w1 = (Inr rights, w2)"
    and u: "get_user_settings (user_services svc) (user_id self) w2 = (Inr settings, w3)"
    and j: "get_classifier_training_jobs (classifier_services svc) exploration_id
              (exp_version exploration) (exp_states exploration) w3 = (Inr jobs, w4)"
    and len: "length (exp_states exploration) \<le> length jobs"
    and dist: "distinct (map fst (exp_states exploration))"
    and c: "check_can_edit_activity (rights_manager svc) (user self) rights w4 = (Inr can_edit, w5)"
    and p: "to_player_dict (exp_domain svc) exploration w5 = (Inr player_dict, w6)"
    and g: "generate_new_session_id (utils svc) w6 = (Inr session_id, w7)"
  shows "\<exists>response mapping calls.
     run (ExplorationHandler_get svc self exploration_id) values0 w =
       (Inr (), \<lparr>world = w7, vals = response,
                 trace = calls @ [Called (Utils Generate_new_session_id) None,
                                  RenderJson (PDict response)]\<rparr>)
     \<and> map_of response ''exploration'' = Some player_dict
     \<and> map_of response ''state_classifier_mapping'' = Some (PDict mapping)
     \<and> fst ` set mapping =
         {name. \<exists>job. (name, Some job) \<in> set (zip (map fst (exp_states exploration)) jobs)}
     \<and> (\<forall>name job. (name, Some job) \<in> set (zip (map fst (exp_states exploration)) jobs)
            \<longrightarrow> map_of mapping name = Some (job_dict job))
     \<and> map_of response ''session_id'' = Some session_id
     \<and> map_of response ''version'' = Some (exp_version exploration)"
proof -
  from len obtain mapping where
    m: "state_classifier_mapping_loop jobs 0 (map fst (exp_states exploration)) [] = Inr mapping"
    using loop_succeeds [of 0 "map fst (exp_states exploration)" jobs "[]"] by auto
  have keys: "fst ` set mapping =
         {name. \<exists>job. (name, Some job) \<in> set (zip (map fst (exp_states exploration)) jobs)}"
    using loop_keys [OF m] by simp
  have look: "\<forall>name job. (name, Some job) \<in> set (zip (map fst (exp_states exploration)) jobs)
            \<longrightarrow> map_of mapping name = Some (job_dict job)"
    using loop_lookup [OF m dist] by simp
  let ?response = "dict_update values0
              [(''can_edit'', can_edit),
               (''exploration'', player_dict),
               (''exploration_id'', PStr exploration_id),
               (''is_logged_in'', PBool (py_bool (user_id self))),
               (''session_id'', session_id),
               (''version'', exp_version exploration),
               (''preferred_audio_language_code'',
                  (case settings of None \<Rightarrow> PNone
                   | Some user_settings \<Rightarrow> preferred_audio_language_code user_settings)),
               (''state_classifier_mapping'', PDict mapping)]"
  let ?calls = "[Called (Exp_services (Get_exploration_by_id exploration_id version)) None,
     Called (Rights_manager (Get_exploration_rights exploration_id False)) None,
     Called (User_services (Get_user_settings (user_id self))) None,
     Called (Classifier_services (Get_classifier_training_jobs exploration_id
        (exp_version exploration) (exp_states exploration))) None,
     Called (Rights_manager (Check_can_edit_activity (user self) rights)) None,
     Called (Exp_domain (To_player_dict exploration)) None]"
  have run: "run (ExplorationHandler_get svc self exploration_id) values0 w =
       (Inr (), \<lparr>world = w7, vals = ?response,
                 trace = ?calls @ [Called (Utils Generate_new_session_id) None,
                                  RenderJson (PDict ?response)]\<rparr>)"
    by (simp add: ExplorationHandler_get_def run_def monad_defs service_defs Let_def v l r u j m c p g)
  have resp: "map_of ?response ''exploration'' = Some player_dict"
    "map_of ?response ''state_classifier_mapping'' = Some (PDict mapping)"
    "map_of ?response ''session_id'' = Some session_id"
    "map_of ?response ''version'' = Some (exp_version exploration)"
    by (simp_all add: dict_update_def update_conv')
  show ?thesis
    using run resp keys look by blast
qed


theorem init_response_contents_witness:
  "\<exists>response mapping.
     fst (run (ExplorationHandler_get example_services example_handler ''exp1'') [] 0) = Inr ()
     \<and> last (trace (snd (run (ExplorationHandler_get example_services example_handler ''exp1'') [] 0)))
         = RenderJson (PDict response)
     \<and> map_of response ''exploration'' = Some (PDict [(''title'', PStr ''Fractions'')])
     \<and> map_of response ''state_classifier_mapping'' = Some (PDict mapping)
     \<and> fst ` set mapping = {''Intro''}
     \<and> map_of mapping ''Intro'' = Some (job_dict example_job)
     \<and> map_of response ''session_id'' = Some (PInt 0)
     \<and> map_of response ''version'' = Some (PInt 3)"
proof -
  have v: "version_of example_services (request_get example_handler ''v'') = Inr PNone"
    by (simp add: version_of_def request_get_def example_defs)
  have l: "get_exploration_by_id (exp_services example_services) ''exp1'' PNone 0
             = (Inr example_exploration, 0)"
    by (simp add: example_services_def returns_def)
  have r: "get_exploration_rights (rights_manager example_services) ''exp1'' False 0
             = (Inr (PStr ''rights''), 0)"
    by (simp add: example_services_def returns_def)
  have u: "get_user_settings (user_services example_services) (user_id example_handler) 0
             = (Inr None, 0)"
    by (simp add: example_services_def returns_def)
  have j: "get_classifier_training_jobs (classifier_services example_services) ''exp1''
             (exp_version example_exploration) (exp_states example_exploration) 0
             = (Inr [Some example_job, None, None], 0)"
    by (simp add: example_services_def returns_def)
  have len: "length (exp_states example_exploration) \<le> length [Some example_job, None, None]"
    by (simp add: example_exploration_def)
  have dist: "distinct (map fst (exp_states example_exploration))"
    by (simp add: example_exploration_def)
  have c: "check_can_edit_activity (rights_manager example_services) (user example_handler)
             (PStr ''rights'') 0 = (Inr (PBool False), 0)"
    by (simp add: example_services_def returns_def)
  have p: "to_player_dict (exp_domain example_services) example_exploration 0
             = (Inr (PDict [(''title'', PStr ''Fractions'')]), 0)"
    by (simp add: example_services_def returns_def example_exploration_def)
  have g: "generate_new_session_id (utils example_services) 0 = (Inr (PInt 0), Suc 0)"
    by (simp add: example_services_def)
  have z: "{name. \<exists>job. (name, Some job)
             \<in> set (zip (map fst (exp_states example_exploration)) [Some example_job, None, None])}
           = {''Intro''}"
    by (auto simp: example_exploration_def)
  have i: "(''Intro'', Some example_job)
             \<in> set (zip (map fst (exp_states example_exploration)) [Some example_job, None, None])"
    by (simp add: example_exploration_def)
  from init_response_contents [OF v l r u j len dist c p g, of "[]"] obtain response mapping calls where
    "run (ExplorationHandler_get example_services example_handler ''exp1'') [] 0 =
       (Inr (), \<lparr>world = Suc 0, vals = response,
                 trace = calls @ [Called (Utils Generate_new_session_id) None,
                                  RenderJson (PDict response)]\<rparr>)"
    "map_of response ''exploration'' = Some (PDict [(''title'', PStr ''Fractions'')])"
    "map_of response ''state_classifier_mapping'' = Some (PDict mapping)"
    "fst ` set mapping = {''Intro''}"
    "map_of mapping ''Intro'' = Some (job_dict example_job)"
    "map_of response ''session_id'' = Some (PInt 0)"
    "map_of response ''version'' = Some (exp_version example_exploration)"
    using z i by auto
  then show ?thesis by (auto simp: example_exploration_def)
qed


subsection \<open>Recommendations\<close>

lemma bindM_Inr_cases:
  assumes "bindM m g s = (Inr y, s')"
  obtains x s1 where "m s = (Inr x, s1)" "g x s1 = (Inr y, s')"
  using assms by (auto simp: bindM_def split: prod.splits sum.splits)

lemma bindM_liftE_cases:
  assumes "bindM (liftE r) g s = (out, s')"
  obtains (raise) e where "r = Inl e" "out = Inl e" "s' = s"
  | (return) x where "r = Inr x" "g x s = (out, s')"
  using assms by (cases r) (auto simp: bindM_def liftE_def)

lemma liftE_run: "liftE r s = (r, s)"
  by (simp add: liftE_def)

lemma py_add_list_Inr: "py_add_list a ys = Inr ids \<Longrightarrow> \<exists>xs. a = PList xs \<and> ids = xs @ ys"
  by (cases a) auto

lemma list_of_set_difference_disjoint:
  assumes "list_of_set_difference svc ids (PList author) = Inr ys"
    and "\<forall>xs. set (set_iteration_order (python svc) xs) = set xs"
  shows "\<forall>y \<in> set ys. PStr y \<notin> set author"
  using assms by (auto simp: list_of_set_difference_def split: if_splits)

text \<open>
  The part of \<open>RecommendationsHandler.get\<close> that computes
  \<^verbatim>\<open>auto_recommended_exp_ids\<close>, for an author's value that is a list: whatever branch is
  taken, no id it yields equals an element of the author's list, and when the system's
  recommendations were asked for, at most \<open>MAX_SYSTEM_RECOMMENDATIONS\<close> ids are yielded.
\<close>

lemma auto_recommended_part:
  assumes order: "\<forall>xs. set (set_iteration_order (python svc) xs) = set xs"
    and sample: "\<forall>population k w ys w'. random_sample (python svc) population k w = (Inr ys, w')
                   \<longrightarrow> length ys = k \<and> set ys \<subseteq> set population"
    and m: "(if py_bool (user_id self) \<and> request_get self ''collection_id'' \<noteq> []
             then
               bindM (collection_services_get_next_exploration_ids_to_complete_by_user svc
                        (user_id self) (PStr (request_get self ''collection_id''))) (\<lambda>next_exp_ids_in_collection.
               liftE (list_of_set_difference svc next_exp_ids_in_collection
                        (PList author)))
             else
               bindM (if request_get self ''collection_id'' \<noteq> []
                      then
                        bindM (collection_services_get_collection_by_id svc (request_get self ''collection_id'')) (\<lambda>coll.
                        collection_services_get_next_exploration_ids_in_sequence svc
                          coll exploration_id)
                      else returnM []) (\<lambda>next_exp_ids_in_collection.
               if next_exp_ids_in_collection \<noteq> []
               then liftE (list_of_set_difference svc next_exp_ids_in_collection
                             (PList author))
               else if request_get self ''include_system_recommendations'' \<noteq> []
               then
                 bindM (recommendations_services_get_exploration_recommendations svc
                          exploration_id) (\<lambda>system_chosen_exp_ids.
                 bindM (liftE (list_of_set_difference svc system_chosen_exp_ids
                          (PList author))) (\<lambda>filtered_exp_ids.
                 random_sample_call svc filtered_exp_ids
                   (min MAX_SYSTEM_RECOMMENDATIONS (length filtered_exp_ids))))
               else returnM [])) s0 = (Inr auto_ids, s1)"
    and t0: "trace s0 = []"
  shows "(\<forall>x \<in> set auto_ids. PStr x \<notin> set author)
       \<and> ((\<exists>r. Called (Recommendations_services (Get_exploration_recommendations exploration_id)) r
                 \<in> set (trace s1)) \<longrightarrow> length auto_ids \<le> MAX_SYSTEM_RECOMMENDATIONS)"
proof (cases "py_bool (user_id self) \<and> request_get self ''collection_id'' \<noteq> []")
  case True
  with m t0 order show ?thesis
    by (auto simp: service_defs liftE_run elim!: bindM_call_cases
             dest!: list_of_set_difference_disjoint)
next
  case False
  note b1 = this
  have s1: "\<And>population k w ys w' x. random_sample (python svc) population k w = (Inr ys, w')
              \<Longrightarrow> x \<in> set ys \<Longrightarrow> x \<in> set population"
    using sample by blast
  have s2: "\<And>population k w ys w'. random_sample (python svc) population k w = (Inr ys, w')
              \<Longrightarrow> length ys = k"
    using sample by blast
  show ?thesis
  proof (cases "request_get self ''collection_id'' \<noteq> []")
    case True
    with b1 m t0 order show ?thesis
      by (auto simp: service_defs liftE_run bindM_if bindM_assoc bindM_returnM returnM_def
                 MAX_SYSTEM_RECOMMENDATIONS_def
               elim!: bindM_call_cases call_cases bindM_liftE_cases
               dest!: list_of_set_difference_disjoint split: if_splits)
         (metis s1 s2 min.cobounded1)+
  next
    case False
    with b1 m t0 order show ?thesis
      by (auto simp: service_defs liftE_run bindM_if bindM_assoc bindM_returnM returnM_def
                 MAX_SYSTEM_RECOMMENDATIONS_def
               elim!: bindM_call_cases call_cases bindM_liftE_cases
               dest!: list_of_set_difference_disjoint split: if_splits)
         (metis s1 s2 min.cobounded1)+
  qed
qed


lemma try_liftE_Inr:
  assumes "try_except (liftE r) h s = (Inr x, s1)" and "\<And>e. \<exists>e'. h e s = (Inl e', s)"
  shows "r = Inr x \<and> s1 = s"
proof (cases r)
  case (Inl e)
  with assms(2) [of e] assms(1) show ?thesis by (auto simp: try_except_def liftE_def)
next
  case (Inr y)
  with assms(1) show ?thesis by (auto simp: try_except_def liftE_def)
qed

text \<open>
  Claim C8. On every successful GET to the recommendations endpoint the author's ids are
  a JSON list, the auto-recommended ids are disjoint from them, and when the
  auto-recommended ids were drawn from the system's recommendations there are at most
  \<open>MAX_SYSTEM_RECOMMENDATIONS\<close> (4) of them; the summaries in the response are what the
  summary service returned for the author's ids followed by the auto-recommended ids.
  The standard library is taken at its word: listing a set yields the set's elements, and
  \<^verbatim>\<open>random.sample(population, k)\<close>, when it returns, returns \<open>k\<close> elements of the
  population.
\<close>

theorem recommendations_disjoint_and_bounded:
  assumes order: "\<forall>xs. set (set_iteration_order (python svc) xs) = set xs"
    and sample: "\<forall>population k w ys w'. random_sample (python svc) population k w = (Inr ys, w')
                   \<longrightarrow> length ys = k \<and> set ys \<subseteq> set population"
    and run: "run (RecommendationsHandler_get svc self exploration_id) values0 w = (Inr (), s')"
  shows "\<exists>author auto_ids summaries response w1 w2.
      json_loads (python svc) (request_get self ''stringified_author_recommended_ids'')
        = Inr (PList author)
    \<and> (\<forall>exp_id \<in> set auto_ids. PStr exp_id \<notin> set author)
    \<and> ((\<exists>r. Called (Recommendations_services (Get_exploration_recommendations exploration_id)) r
             \<in> set (trace s')) \<longrightarrow> length auto_ids \<le> MAX_SYSTEM_RECOMMENDATIONS)
    \<and> MAX_SYSTEM_RECOMMENDATIONS = 4
    \<and> get_displayable_exp_summary_dicts_matching_ids (summary_services svc)
          (author @ map PStr auto_ids) w1 = (Inr summaries, w2)
    \<and> Called (Summary_services (Get_displayable_exp_summary_dicts_matching_ids
          (author @ map PStr auto_ids))) None \<in> set (trace s')
    \<and> last (trace s') = RenderJson (PDict response)
    \<and> map_of response ''summaries'' = Some summaries"
  using run unfolding run_def RecommendationsHandler_get_def Let_def
  apply (elim bindM_Inr_cases)
  subgoal premises prems for a s0 auto_ids s1 ids s2 summaries s3 u s4
  proof -
    have j: "json_loads (python svc) (request_get self ''stringified_author_recommended_ids'') = Inr a"
      and s0: "s0 = \<lparr>world = w, vals = values0, trace = []\<rparr>"
      using try_liftE_Inr [OF prems(1)] by (simp_all add: raiseM_def)
    have "py_add_list a (map PStr auto_ids) = Inr ids" and s2: "s2 = s1"
      using prems(3) by (simp_all add: liftE_def)
    then obtain author where a: "a = PList author" and ids: "ids = author @ map PStr auto_ids"
      using py_add_list_Inr by blast
    have t0: "trace s0 = []" using s0 by simp
    have part: "(\<forall>x \<in> set auto_ids. PStr x \<notin> set author)
       \<and> ((\<exists>r. Called (Recommendations_services (Get_exploration_recommendations exploration_id)) r
                 \<in> set (trace s1)) \<longrightarrow> length auto_ids \<le> MAX_SYSTEM_RECOMMENDATIONS)"
      by (rule auto_recommended_part [OF order sample prems(2) [unfolded a] t0])
    from prems(4) obtain w2 where
      sm: "get_displayable_exp_summary_dicts_matching_ids (summary_services svc) ids (world s2)
             = (Inr summaries, w2)"
      and s3: "s3 = s2\<lparr>world := w2, trace := trace s2 @
                 [Called (Summary_services (Get_displayable_exp_summary_dicts_matching_ids ids)) None]\<rparr>"
      unfolding service_defs by (auto elim!: call_cases)
    have s4: "s4 = s3\<lparr>vals := dict_update (vals s3) [(''summaries'', summaries)]\<rparr>"
      using prems(5) by (simp add: self_values_update_def)
    have s': "s' = s4\<lparr>trace := trace s4 @ [RenderJson (PDict (vals s4))]\<rparr>"
      using prems(6) by (simp add: render_json_values_run)
    have tr: "trace s' = trace s1 @
        [Called (Summary_services (Get_displayable_exp_summary_dicts_matching_ids ids)) None,
         RenderJson (PDict (dict_update (vals s1) [(''summaries'', summaries)]))]"
      using s' s4 s3 s2 by simp
    have m: "map_of (dict_update (vals s1) [(''summaries'', summaries)]) ''summaries'' = Some summaries"
      by (simp add: dict_update_def update_conv')
    have recs: "(\<exists>r. Called (Recommendations_services (Get_exploration_recommendations exploration_id)) r
             \<in> set (trace s')) \<longrightarrow> length auto_ids \<le> MAX_SYSTEM_RECOMMENDATIONS"
      using part tr by auto
    show ?thesis
      using j a ids part recs sm tr m by (auto simp: MAX_SYSTEM_RECOMMENDATIONS_def)
  qed
  done


lemma example_recommendations_run:
  "run (RecommendationsHandler_get example_services example_recommendations_request ''exp1'') [] 0 =
     (Inr (),
      \<lparr>world = 0,
       vals = [(''summaries'', PList [PStr ''exp2'', PStr ''exp4'', PStr ''exp5'', PStr ''exp6'',
                                     PStr ''exp7''])],
       trace =
         [Called (Recommendations_services (Get_exploration_recommendations ''exp1'')) None,
          Called (Python (Random_sample [''exp4'', ''exp5'', ''exp6'', ''exp7'', ''exp8''] 4)) None,
          Called (Summary_services (Get_displayable_exp_summary_dicts_matching_ids
             [PStr ''exp2'', PStr ''exp4'', PStr ''exp5'', PStr ''exp6'', PStr ''exp7''])) None,
          RenderJson (PDict [(''summaries'', PList [PStr ''exp2'', PStr ''exp4'', PStr ''exp5'',
                                                  PStr ''exp6'', PStr ''exp7''])])]\<rparr>)"
  by (simp add: RecommendationsHandler_get_def run_defs
        example_recommendations_request_def example_defs list_of_set_difference_def
        MAX_SYSTEM_RECOMMENDATIONS_def dict_update_def)


theorem recommendations_disjoint_and_bounded_witness:
  "fst (run (RecommendationsHandler_get example_services example_recommendations_request ''exp1'')
          [] 0) = Inr ()
   \<and> (\<exists>author auto_ids.
        json_loads (python example_services)
          (request_get example_recommendations_request ''stringified_author_recommended_ids'')
          = Inr (PList author)
        \<and> author = [PStr ''exp2'']
        \<and> (\<forall>exp_id \<in> set auto_ids. PStr exp_id \<notin> set author)
        \<and> length auto_ids \<le> 4
        \<and> Called (Summary_services (Get_displayable_exp_summary_dicts_matching_ids
              (author @ map PStr auto_ids))) None
            \<in> set (trace (snd (run (RecommendationsHandler_get example_services
                    example_recommendations_request ''exp1'') [] 0))))"
proof -
  let ?R = "run (RecommendationsHandler_get example_services example_recommendations_request ''exp1'')
              [] 0"
  have order: "\<forall>xs. set (set_iteration_order (python example_services) xs) = set xs"
    by (simp add: example_defs)
  have sample: "\<forall>population k w ys w'.
      random_sample (python example_services) population k w = (Inr ys, w')
        \<longrightarrow> length ys = k \<and> set ys \<subseteq> set population"
    by (auto simp: example_defs dest: in_set_takeD split: if_splits)
  have r: "?R = (Inr (), snd ?R)" by (simp add: example_recommendations_run)
  have c: "Called (Recommendations_services (Get_exploration_recommendations ''exp1'')) None
             \<in> set (trace (snd ?R))"
    by (simp add: example_recommendations_run)
  have j: "json_loads (python example_services)
          (request_get example_recommendations_request ''stringified_author_recommended_ids'')
          = Inr (PList [PStr ''exp2''])"
    by (simp add: example_recommendations_request_def example_defs request_get_def)
  from recommendations_disjoint_and_bounded [OF order sample r] c j show ?thesis
    by (auto simp: MAX_SYSTEM_RECOMMENDATIONS_def example_recommendations_run)
qed


end
